theory Spec2Isabelle
  imports Main
begin

section \<open>Go run-time failures\<close>

text \<open>
  A Go \<^verbatim>\<open>panic\<close> aborts the request; it is a value of the model. Functions that can panic
  return \<open>error + 'a\<close>, with \<open>Inl\<close> the panic. A loop that may run forever returns an
  \<open>option\<close> on top of that, \<open>None\<close> standing for "does not return".
\<close>

datatype error = Panic string | NilDereference | IndexOutOfRange

section \<open>Tokens (package front)\<close>

text \<open>
  \<^verbatim>\<open>NewToken(lexeme, kind, start, end)\<close>: lexeme, kind and the span (byte offsets).
  \<open>NoKind\<close> is the zero value of \<^verbatim>\<open>TokenType\<close>, which only \<^verbatim>\<open>BadToken\<close> carries.
\<close>

datatype TokenType = Identifier | Number | String_t | Char_t | Symbol | EndOfFile | NoKind

datatype Token = Token (Value: string) (Kind: TokenType) (Span: "nat list")

definition NewToken :: "string \<Rightarrow> TokenType \<Rightarrow> nat \<Rightarrow> nat \<Rightarrow> Token" where
  "NewToken lexeme t s e = Token lexeme t [s, e]"

section \<open>The lexer (front/lex.go)\<close>

subsection \<open>Runes and the standard library\<close>

text \<open>
  A Go string is a byte sequence; so is an Isabelle \<open>string\<close>. A rune is an \<open>int\<close>
  (\<^verbatim>\<open>eof = -1\<close>). \<open>DecodeRune\<close> follows \<^verbatim>\<open>unicode/utf8.DecodeRune\<close>: the first rune of
  the bytes and its width, \<open>(RuneError, 1)\<close> on an invalid encoding and \<open>(RuneError, 0)\<close>
  on no bytes.
\<close>

definition eof :: int where
  "eof = - 1"

definition RuneError :: int where
  "RuneError = 65533"

definition rune :: "char \<Rightarrow> int" where
  "rune c = int (of_char c)"

definition byte_in :: "char \<Rightarrow> nat \<Rightarrow> nat \<Rightarrow> bool" where
  "byte_in b lo hi = (lo \<le> of_char b \<and> of_char b \<le> hi)"

definition low6 :: "char \<Rightarrow> int" where
  "low6 b = int (of_char b mod 64)"

fun DecodeRune :: "string \<Rightarrow> int \<times> nat" where
  "DecodeRune [] = (RuneError, 0)"
| "DecodeRune (b0 # bs) =
     (let x = (of_char b0 :: nat) in
      if x < 128 then (int x, 1)
      else if 194 \<le> x \<and> x \<le> 223 then
        (case bs of
           b1 # _ \<Rightarrow>
             if byte_in b1 128 191 then (int (x mod 32) * 64 + low6 b1, 2) else (RuneError, 1)
         | _ \<Rightarrow> (RuneError, 1))
      else if 224 \<le> x \<and> x \<le> 239 then
        (case bs of
           b1 # b2 # _ \<Rightarrow>
             if byte_in b1 (if x = 224 then 160 else 128) (if x = 237 then 159 else 191)
                \<and> byte_in b2 128 191
             then (int (x mod 16) * 4096 + low6 b1 * 64 + low6 b2, 3)
             else (RuneError, 1)
         | _ \<Rightarrow> (RuneError, 1))
      else if 240 \<le> x \<and> x \<le> 244 then
        (case bs of
           b1 # b2 # b3 # _ \<Rightarrow>
             if byte_in b1 (if x = 240 then 144 else 128) (if x = 244 then 143 else 191)
                \<and> byte_in b2 128 191 \<and> byte_in b3 128 191
             then (int (x mod 8) * 262144 + low6 b1 * 4096 + low6 b2 * 64 + low6 b3, 4)
             else (RuneError, 1)
         | _ \<Rightarrow> (RuneError, 1))
      else (RuneError, 1))"

text \<open>
  \<^verbatim>\<open>strings.IndexRune(valid, r)\<close> for the ASCII strings the lexer passes: the index of the
  first byte equal to \<open>r\<close>, or \<open>-1\<close>.
\<close>

definition IndexRune :: "string \<Rightarrow> int \<Rightarrow> int" where
  "IndexRune s r =
     (if r \<in> set (map rune s) then int (length (takeWhile (\<lambda>c. rune c \<noteq> r) s)) else - 1)"

text \<open>
  \<^verbatim>\<open>unicode.IsDigit\<close> and \<^verbatim>\<open>unicode.IsLetter\<close> read the Unicode tables. On ASCII they
  are the decimal digits and the Latin letters; beyond ASCII the tables are a parameter
  of the model.
\<close>

record unicode =
  LetterBeyondASCII :: "int \<Rightarrow> bool"
  DigitBeyondASCII :: "int \<Rightarrow> bool"

definition IsDigit :: "unicode \<Rightarrow> int \<Rightarrow> bool" where
  "IsDigit U r = (if r < 128 then 48 \<le> r \<and> r \<le> 57 else DigitBeyondASCII U r)"

definition IsLetter :: "unicode \<Rightarrow> int \<Rightarrow> bool" where
  "IsLetter U r =
     (if r < 128 then (65 \<le> r \<and> r \<le> 90) \<or> (97 \<le> r \<and> r \<le> 122)
      else LetterBeyondASCII U r)"

definition symbols :: "int list" where
  "symbols = map rune ''+-/*%=(){}[]<>.$!?#/,|&_~;:''"

definition isSymbol :: "int \<Rightarrow> bool" where
  "isSymbol r = (r \<in> set symbols)"

definition isAlphaNumeric :: "unicode \<Rightarrow> int \<Rightarrow> bool" where
  "isAlphaNumeric U r = (r = rune CHR ''_'' \<or> IsLetter U r \<or> IsDigit U r)"

text \<open>
  \<^verbatim>\<open>doubleSym\<close> is keyed by \<^verbatim>\<open>string(r1) + string(r2)\<close>. Its keys are two ASCII bytes, and the
  UTF-8 encoding of a rune is one ASCII byte only for that ASCII rune, so the key is found
  exactly when the two runes are the two bytes of the key.
\<close>

definition doubleSym :: "string list" where
  "doubleSym = [''=='', ''!='', ''&&'', ''||'', ''<='', ''>='']"

definition isDoubleSym :: "int \<Rightarrow> int \<Rightarrow> bool" where
  "isDoubleSym r1 r2 = (\<exists>k \<in> set doubleSym. map rune k = [r1, r2])"

subsection \<open>The scanner state\<close>

record lexer =
  input :: string
  pos :: nat
  start :: nat
  width :: nat
  stream :: "Token list"

definition emit :: "TokenType \<Rightarrow> lexer \<Rightarrow> lexer" where
  "emit t l =
     l\<lparr>start := pos l,
       stream := stream l @
         [NewToken (take (pos l - start l) (drop (start l) (input l))) t (start l) (pos l)]\<rparr>"

definition ignore :: "lexer \<Rightarrow> lexer" where
  "ignore l = l\<lparr>start := pos l\<rparr>"

definition rewind :: "lexer \<Rightarrow> lexer" where
  "rewind l = l\<lparr>pos := pos l - width l\<rparr>"

definition consume :: "lexer \<Rightarrow> error + (int \<times> lexer)" where
  "consume l =
     (if length (input l) \<le> pos l then Inr (eof, l\<lparr>width := 0\<rparr>)
      else
        (case DecodeRune (drop (pos l) (input l)) of
           (res, w) \<Rightarrow>
             if res = RuneError then Inl (Panic ''oh'')
             else Inr (res, l\<lparr>width := w, pos := pos l + w\<rparr>)))"

definition peek :: "lexer \<Rightarrow> error + (int \<times> lexer)" where
  "peek l = (case consume l of Inl e \<Rightarrow> Inl e | Inr (res, l') \<Rightarrow> Inr (res, rewind l'))"

definition accept :: "string \<Rightarrow> lexer \<Rightarrow> error + (bool \<times> lexer)" where
  "accept valid l =
     (case consume l of
        Inl e \<Rightarrow> Inl e
      | Inr (r, l') \<Rightarrow> if 0 \<le> IndexRune valid r then Inr (True, l') else Inr (False, rewind l'))"

text \<open>
  The loop of \<^verbatim>\<open>acceptRun\<close> ends: a rune found in \<open>valid\<close> is not \<open>eof\<close>, so it was decoded
  with a positive width and the position moved.
\<close>

function acceptRun :: "string \<Rightarrow> lexer \<Rightarrow> error + lexer" where
  "acceptRun valid l =
     (case consume l of
        Inl e \<Rightarrow> Inl e
      | Inr (r, l') \<Rightarrow> if 0 \<le> IndexRune valid r then acceptRun valid l' else Inr (rewind l'))"
  by pat_completeness auto
termination
proof (relation "measure (\<lambda>(valid, l). length (input l) - pos l)")
  show "wf (measure (\<lambda>(valid, l). length (input l) - pos l))"
    by simp
next
  fix valid l x r l'
  assume c: "consume l = Inr x" "(r, l') = x" and i: "0 \<le> IndexRune valid r"
  have "r \<noteq> eof"
    using i by (auto simp: IndexRune_def eof_def rune_def split: if_splits)
  moreover have "0 < w" if "DecodeRune (drop (pos l) (input l)) = (q, w)"
    and "pos l < length (input l)" for q w
    using that by (cases "drop (pos l) (input l)") (auto simp: Let_def split: if_splits list.splits)
  ultimately have "length (input l') - pos l' < length (input l) - pos l"
    using c by (fastforce simp: consume_def split: if_splits prod.splits)
  then show "((valid, l'), (valid, l)) \<in> measure (\<lambda>(valid, l). length (input l) - pos l)"
    by simp
qed

text \<open>The loop of \<^verbatim>\<open>lexIdentifier\<close>; it ends for the same reason.\<close>

function lexIdentifierLoop :: "unicode \<Rightarrow> lexer \<Rightarrow> error + lexer" where
  "lexIdentifierLoop U l =
     (case consume l of
        Inl e \<Rightarrow> Inl e
      | Inr (c, l') \<Rightarrow>
          if isAlphaNumeric U c then lexIdentifierLoop U l'
          else Inr (emit Identifier (rewind l')))"
  by pat_completeness auto
termination
proof (relation "measure (\<lambda>(U, l). length (input l) - pos l)")
  show "wf (measure (\<lambda>(U, l). length (input l) - pos l))"
    by simp
next
  fix U l x c l'
  assume c: "consume l = Inr x" "(c, l') = x" and i: "isAlphaNumeric U c"
  have "c \<noteq> eof"
    using i by (auto simp: isAlphaNumeric_def IsLetter_def IsDigit_def eof_def rune_def)
  moreover have "0 < w" if "DecodeRune (drop (pos l) (input l)) = (q, w)"
    and "pos l < length (input l)" for q w
    using that by (cases "drop (pos l) (input l)") (auto simp: Let_def split: if_splits list.splits)
  ultimately have "length (input l') - pos l' < length (input l) - pos l"
    using c by (fastforce simp: consume_def split: if_splits prod.splits)
  then show "((U, l'), (U, l)) \<in> measure (\<lambda>(U, l). length (input l) - pos l)"
    by simp
qed

subsection \<open>The state functions\<close>

text \<open>
  A \<^verbatim>\<open>stateFn\<close> value is one of the five state functions; \<^verbatim>\<open>nil\<close> is \<open>None\<close>.
\<close>

datatype stateFn = lexStart | lexNumber | lexIdentifier | lexSymbol | lexQuote

definition lexIdentifier_fn :: "unicode \<Rightarrow> lexer \<Rightarrow> error + (stateFn option \<times> lexer)" where
  "lexIdentifier_fn U l =
     (case lexIdentifierLoop U l of Inl e \<Rightarrow> Inl e | Inr l' \<Rightarrow> Inr (Some lexStart, l'))"

definition lexNumber_fn :: "lexer \<Rightarrow> error + (stateFn option \<times> lexer)" where
  "lexNumber_fn l =
     (case acceptRun ''0123456789'' l of
        Inl e \<Rightarrow> Inl e
      | Inr l1 \<Rightarrow>
          (case accept ''.'' l1 of
             Inl e \<Rightarrow> Inl e
           | Inr (dot, l2) \<Rightarrow>
               (case (if dot then acceptRun ''012345689'' l2 else Inr l2) of
                  Inl e \<Rightarrow> Inl e
                | Inr l3 \<Rightarrow> Inr (Some lexStart, emit Number l3))))"

text \<open>
  The loop of \<^verbatim>\<open>lexQuote\<close> leaves only at a closing quote. At the end of the input
  \<^verbatim>\<open>consume\<close> keeps returning \<open>eof\<close>, which the \<^verbatim>\<open>default\<close> branch swallows: the loop may
  not return, hence the \<open>option\<close>.
\<close>

partial_function (option) lexQuoteLoop :: "lexer \<Rightarrow> (error + lexer) option" where
  "lexQuoteLoop l =
     (case consume l of
        Inl e \<Rightarrow> Some (Inl e)
      | Inr (r, l') \<Rightarrow>
          if r = rune CHR 0x22 then Some (Inr (emit String_t l')) else lexQuoteLoop l')"

declare lexQuoteLoop.simps [code]

definition lexQuote_fn :: "lexer \<Rightarrow> (error + (stateFn option \<times> lexer)) option" where
  "lexQuote_fn l =
     (case accept [CHR 0x22] l of
        Inl e \<Rightarrow> Some (Inl e)
      | Inr (ok, l1) \<Rightarrow>
          if \<not> ok then Some (Inl (Panic ''expect''))
          else
            (case lexQuoteLoop l1 of
               None \<Rightarrow> None
             | Some (Inl e) \<Rightarrow> Some (Inl e)
             | Some (Inr l2) \<Rightarrow> Some (Inr (Some lexStart, l2))))"

definition lexSymbol_fn :: "lexer \<Rightarrow> error + (stateFn option \<times> lexer)" where
  "lexSymbol_fn l =
     (case consume l of
        Inl e \<Rightarrow> Inl e
      | Inr (r1, l1) \<Rightarrow>
          (case peek l1 of
             Inl e \<Rightarrow> Inl e
           | Inr (r2, l2) \<Rightarrow>
               if isDoubleSym r1 r2 then
                 (case consume l2 of
                    Inl e \<Rightarrow> Inl e
                  | Inr (_, l3) \<Rightarrow> Inr (Some lexStart, emit Symbol l3))
               else Inr (Some lexStart, emit Symbol l2)))"

definition lexStart_fn :: "unicode \<Rightarrow> lexer \<Rightarrow> error + (stateFn option \<times> lexer)" where
  "lexStart_fn U l =
     (case consume l of
        Inl e \<Rightarrow> Inl e
      | Inr (c, l') \<Rightarrow>
          if c = eof then Inr (None, rewind l')
          else if IsDigit U c then Inr (Some lexNumber, rewind l')
          else if isAlphaNumeric U c then Inr (Some lexIdentifier, rewind l')
          else if isSymbol c then Inr (Some lexSymbol, rewind l')
          else if c = rune CHR 0x22 then Inr (Some lexQuote, rewind l')
          else if c \<le> rune CHR '' '' then Inr (Some lexStart, ignore l')
          else Inr (None, emit EndOfFile (rewind l')))"

text \<open>\<^verbatim>\<open>s(l)\<close>: the call of a state function.\<close>

definition call :: "unicode \<Rightarrow> stateFn \<Rightarrow> lexer \<Rightarrow> (error + (stateFn option \<times> lexer)) option" where
  "call U s l =
     (case s of
        lexStart \<Rightarrow> Some (lexStart_fn U l)
      | lexNumber \<Rightarrow> Some (lexNumber_fn l)
      | lexIdentifier \<Rightarrow> Some (lexIdentifier_fn U l)
      | lexSymbol \<Rightarrow> Some (lexSymbol_fn l)
      | lexQuote \<Rightarrow> lexQuote_fn l)"

text \<open>
  The driver of \<^verbatim>\<open>tokenizeInput\<close>: \<^verbatim>\<open>for s := lexStart; s != nil; { s = s(l) }\<close>. Nothing
  bounds the number of rounds.
\<close>

partial_function (option) run :: "unicode \<Rightarrow> stateFn option \<Rightarrow> lexer \<Rightarrow> (error + lexer) option" where
  "run U s l =
     (case s of
        None \<Rightarrow> Some (Inr l)
      | Some f \<Rightarrow>
          (case call U f l of
             None \<Rightarrow> None
           | Some (Inl e) \<Rightarrow> Some (Inl e)
           | Some (Inr (s', l')) \<Rightarrow> run U s' l'))"

declare run.simps [code]

definition tokenizeInput :: "unicode \<Rightarrow> string \<Rightarrow> (error + Token list) option" where
  "tokenizeInput U inp =
     (case run U (Some lexStart) \<lparr>input = inp, pos = 0, start = 0, width = 0, stream = []\<rparr> of
        None \<Rightarrow> None
      | Some (Inl e) \<Rightarrow> Some (Inl e)
      | Some (Inr l) \<Rightarrow> Some (Inr (stream l)))"

text \<open>A table for the runes beyond ASCII that knows no letter and no digit there.\<close>

definition ascii_tables :: unicode where
  "ascii_tables = \<lparr>LetterBeyondASCII = (\<lambda>r. False), DigitBeyondASCII = (\<lambda>r. False)\<rparr>"

section \<open>Diagnostics (package api)\<close>

text \<open>
  Modelled from the spec: the package \<^verbatim>\<open>api\<close> is not in the source. A diagnostic is one of
  the kinds the passes construct, with the arguments they give it: \<^verbatim>\<open>NewParseError\<close>
  (expectation, span), \<^verbatim>\<open>NewUnimplementedError\<close> (descriptions, span),
  \<^verbatim>\<open>NewUnresolvedSymbol\<close> and \<^verbatim>\<open>NewSymbolError\<close> (name, span), and the literal of
  \<^verbatim>\<open>buildTree\<close> whose title is "Duplicate implementation for" the impl's name.
\<close>

datatype CompilerError =
    ParseError string "nat list"
  | UnimplementedError "string list" "nat list"
  | UnresolvedSymbol string "nat list"
  | SymbolError string "nat list"
  | DuplicateImplementation Token

section \<open>The syntax tree (package front)\<close>

text \<open>
  Modelled from the spec: the declarations of the tree are not in the source; the
  constructors are the node kinds that \<^verbatim>\<open>parse.go\<close> builds and the builder reads, each with
  the fields of its node. A field that is a Go pointer to an expression, a type, a
  statement or a block is an \<open>option\<close>, \<open>None\<close> being \<^verbatim>\<open>nil\<close>. A \<^verbatim>\<open>float64\<close> is kept as
  a pair and never computed with; an integer constant is the \<^verbatim>\<open>big.Int\<close> that
  \<^verbatim>\<open>SetString\<close> read, \<open>None\<close> when it could not.
\<close>

type_synonym float64 = "int \<times> int"

datatype ConstantNode =
    IntegerConstant "int option"
  | FloatingConstant float64
  | StringConstant string
  | CharacterConstant string
  | VariableReference Token

datatype InitKind = InitStructure | InitArray | InitTuple

datatype ExpressionNode =
    TypeExpression "TypeNode option"
  | ConstantExpression ConstantNode
  | UnaryExpression string "ExpressionNode option"
  | BinaryExpression "ExpressionNode option" string "ExpressionNode option"
  | Grouping "ExpressionNode option"
  | ListExpression "ExpressionNode option list"
  | BuiltinExpression string Token "ExpressionNode option list"
  | CallExpression "ExpressionNode option" "ExpressionNode option list"
  | IndexExpression "ExpressionNode option" "ExpressionNode option"
  | LambdaExpression FunctionPrototypeDeclaration "BlockNode option"
  | InitializerExpression InitKind Token "ExpressionNode option list"
  | AssignStatement "ExpressionNode option" string "ExpressionNode option"
  | PathExpression "ExpressionNode option list"
and TypeNode =
    PointerType "ExpressionNode option"
  | ArrayType "ExpressionNode option" "ExpressionNode option"
  | UnresolvedType string
  | TupleType "ExpressionNode option list"
  | StructureType Token "NamedType list"
and NamedType =
    NamedType bool Token bool "ExpressionNode option"
and FunctionPrototypeDeclaration =
    FunctionPrototypeDeclaration Token "NamedType list" "ExpressionNode option"
and BlockNode =
    BlockNode "ParseTreeNode option list"
and ParseTreeNode =
    LetStatement Token bool "ExpressionNode option" "ExpressionNode option"
  | MutableStatement Token bool "ExpressionNode option" "ExpressionNode option"
  | ReturnStatement "ExpressionNode option"
  | NextStatement
  | BreakStatement
  | TypeAliasStatement Token "ExpressionNode option"
  | IfStatement "ExpressionNode option" "BlockNode option"
      "(ExpressionNode option \<times> BlockNode option) list" "BlockNode option"
  | WhileLoopStatement "ExpressionNode option" "ExpressionNode option" "BlockNode option"
  | LoopStatement "BlockNode option"
  | DeferStatement "BlockNode option" "ParseTreeNode option"
  | BlockStatement "BlockNode option"
  | ExpressionStatement "ExpressionNode option"
  | LabelStatement Token
  | JumpStatement Token
  | FunctionDeclStatement FunctionDeclaration
  | ImplDeclStatement Token "FunctionDeclaration list"
  | TraitDeclStatement Token "FunctionPrototypeDeclaration list"
  | StructureDeclStatement Token "NamedType list"
and FunctionDeclaration =
    FunctionDeclaration FunctionPrototypeDeclaration "BlockNode option"

section \<open>The parser (front/parse.go)\<close>

subsection \<open>The token cursor\<close>

text \<open>
  Modelled from the spec: the struct \<^verbatim>\<open>parser\<close> that \<^verbatim>\<open>astParser\<close> embeds, and its methods,
  are not in the source. It is a cursor over the token sequence with the list of
  diagnostics. \<^verbatim>\<open>hasNext\<close> says whether a token is left; \<^verbatim>\<open>next\<close> and \<^verbatim>\<open>peek\<close> read without
  moving and give \<^verbatim>\<open>BadToken\<close> past the end; \<^verbatim>\<open>consume\<close> reads and moves. On a missing
  expected token \<^verbatim>\<open>expect\<close> and \<^verbatim>\<open>expectKind\<close> record a diagnostic with the expectation, the
  position they started at and the current position, give \<^verbatim>\<open>BadToken\<close>, and parsing
  continues. \<^verbatim>\<open>Matches\<close> compares the lexeme with each of the given strings.
\<close>

definition BadToken :: Token where
  "BadToken = Token [] NoKind []"

definition Matches :: "Token \<Rightarrow> string list \<Rightarrow> bool" where
  "Matches tok vals = (Value tok \<in> set vals)"

record parser =
  toks :: "Token list"
  pos :: nat
  errors :: "CompilerError list"

definition new_parser :: "Token list \<Rightarrow> nat \<Rightarrow> CompilerError list \<Rightarrow> parser" where
  "new_parser ts n es = \<lparr>toks = ts, pos = n, errors = es\<rparr>"

definition error_p :: "CompilerError \<Rightarrow> parser \<Rightarrow> parser" where
  "error_p e p = p\<lparr>errors := errors p @ [e]\<rparr>"

definition hasNext :: "parser \<Rightarrow> bool" where
  "hasNext p = (pos p < length (toks p))"

definition peek_p :: "nat \<Rightarrow> parser \<Rightarrow> Token" where
  "peek_p offs p = (if pos p + offs < length (toks p) then toks p ! (pos p + offs) else BadToken)"

definition next_p :: "parser \<Rightarrow> Token" where
  "next_p p = peek_p 0 p"

definition consume_p :: "parser \<Rightarrow> Token \<times> parser" where
  "consume_p p = (next_p p, p\<lparr>pos := pos p + 1\<rparr>)"

definition expect :: "string \<Rightarrow> parser \<Rightarrow> Token \<times> parser" where
  "expect val p =
     (if hasNext p \<and> Matches (next_p p) [val] then consume_p p
      else
        (let p' = (if hasNext p then snd (consume_p p) else p)
         in (BadToken, error_p (ParseError val [pos p, pos p']) p')))"

definition expectKind :: "TokenType \<Rightarrow> parser \<Rightarrow> Token \<times> parser" where
  "expectKind kind p =
     (if hasNext p \<and> Kind (next_p p) = kind then consume_p p
      else
        (let p' = (if hasNext p then snd (consume_p p) else p)
         in (BadToken, error_p (ParseError ''token kind'' [pos p, pos p']) p')))"

text \<open>\<^verbatim>\<open>if c { p.error(e) }\<close>\<close>

definition errorIf :: "bool \<Rightarrow> CompilerError \<Rightarrow> parser \<Rightarrow> parser" where
  "errorIf c e p = (if c then error_p e p else p)"

subsection \<open>Results and recursion\<close>

text \<open>
  A parse function returns its node with the cursor it left, or panics; \<open>None\<close> is for
  a call that was not given fuel enough to return. The parse functions call each other
  in a circle, and several of their loops are bounded by nothing but the input. In the
  model a function receives in \<open>k\<close> what it may call: the five functions that close the
  circles, with one unit of fuel less, the number of rounds a loop may take, and
  \<^verbatim>\<open>strconv.ParseFloat\<close>, a library function that is a parameter of the model.
\<close>

type_synonym 'a parse = "(error + 'a \<times> parser) option"

definition ret :: "'a \<Rightarrow> parser \<Rightarrow> 'a parse" where
  "ret x p = Some (Inr (x, p))"

definition seq :: "'a parse \<Rightarrow> ('a \<Rightarrow> parser \<Rightarrow> 'b parse) \<Rightarrow> 'b parse" where
  "seq m f = (case m of None \<Rightarrow> None | Some (Inl e) \<Rightarrow> Some (Inl e) | Some (Inr (x, p)) \<Rightarrow> f x p)"

record calls =
  fuel :: nat
  ParseFloat :: "string \<Rightarrow> error + float64"
  call_parseTypeExpression :: "parser \<Rightarrow> ExpressionNode option parse"
  call_parseExpression :: "parser \<Rightarrow> ExpressionNode option parse"
  call_parseLeft :: "parser \<Rightarrow> ExpressionNode option parse"
  call_parseStatement :: "parser \<Rightarrow> ParseTreeNode option parse"
  call_parseStatBlock :: "parser \<Rightarrow> BlockNode option parse"

subsection \<open>Types\<close>

definition parsePointerType :: "calls \<Rightarrow> parser \<Rightarrow> TypeNode option parse" where
  "parsePointerType k p =
     (let start = pos p; (star, p1) = expect ''*'' p
      in seq (call_parseTypeExpression k p1) (\<lambda>base p2.
           if base = None then ret None (error_p (ParseError ''type after pointer'' [start, pos p2]) p2)
           else ret (Some (PointerType base)) p2))"

definition parseArrayType :: "calls \<Rightarrow> parser \<Rightarrow> TypeNode option parse" where
  "parseArrayType k p =
     (let start = pos p; (lb, p1) = expect ''['' p
      in seq (call_parseTypeExpression k p1) (\<lambda>base p2.
           let p3 = errorIf (base = None) (ParseError ''array type'' [start, pos p2]) p2;
               (semi, p4) = expect '';'' p3
           in seq (call_parseExpression k p4) (\<lambda>size p5.
                let p6 = errorIf (size = None)
                           (ParseError ''array length constant'' [start, pos p5]) p5;
                    (rb, p7) = expect '']'' p6
                in ret (Some (ArrayType base size)) p7)))"

definition parseUnresolvedType :: "parser \<Rightarrow> TypeNode option parse" where
  "parseUnresolvedType p =
     (let (name, p1) = expectKind Identifier p in ret (Some (UnresolvedType (Value name))) p1)"

fun parseTupleTypeLoop ::
  "nat \<Rightarrow> calls \<Rightarrow> ExpressionNode option list \<Rightarrow> parser \<Rightarrow> ExpressionNode option list parse"
where
  "parseTupleTypeLoop 0 k types p = None"
| "parseTupleTypeLoop (Suc n) k types p =
     (if \<not> hasNext p then ret types p
      else
        (let p1 = (if Matches (next_p p) ['',''] then snd (consume_p p) else p)
         in if Matches (next_p p1) ['')''] then ret types p1
            else seq (call_parseTypeExpression k p1) (\<lambda>typ p2.
                   parseTupleTypeLoop n k (if typ \<noteq> None then types @ [typ] else types) p2)))"

definition parseTupleType :: "calls \<Rightarrow> parser \<Rightarrow> TypeNode option parse" where
  "parseTupleType k p =
     (let (lp, p1) = expect ''('' p
      in seq (parseTupleTypeLoop (fuel k) k [] p1) (\<lambda>types p2.
           let (rp, p3) = expect '')'' p2 in ret (Some (TupleType types)) p3))"

fun parseStructureTypeLoop ::
  "nat \<Rightarrow> calls \<Rightarrow> nat \<Rightarrow> NamedType list \<Rightarrow> parser \<Rightarrow> NamedType list parse"
where
  "parseStructureTypeLoop 0 k from0 fs p = None"
| "parseStructureTypeLoop (Suc n) k from0 fs p =
     (if \<not> hasNext p then ret fs p
      else if Matches (next_p p) [''}''] then ret fs p
      else
        (let (name, p1) = expectKind Identifier p
         in seq (call_parseTypeExpression k p1) (\<lambda>typ p2.
              let p3 = errorIf (typ = None) (ParseError ''type'' [from0, pos p2]) p2;
                  (comma, p4) = expect '','' p3
              in parseStructureTypeLoop n k from0 (fs @ [NamedType True name False typ]) p4)))"

definition parseStructureType :: "calls \<Rightarrow> parser \<Rightarrow> TypeNode option parse" where
  "parseStructureType k p =
     (let start = pos p; (first, p1) = expect ''struct'' p; (lb, p2) = expect ''{'' p1
      in seq (parseStructureTypeLoop (fuel k) k start [] p2) (\<lambda>fs p3.
           let (rb, p4) = expect ''}'' p3 in ret (Some (StructureType first fs)) p4))"

definition parseTypeExpression :: "calls \<Rightarrow> parser \<Rightarrow> ExpressionNode option parse" where
  "parseTypeExpression k p =
     (let start = pos p; curr = next_p p
      in if Matches curr [''*''] then
           seq (parsePointerType k p) (\<lambda>t p1. ret (Some (TypeExpression t)) p1)
         else if Matches curr [''[''] then
           seq (parseArrayType k p) (\<lambda>t p1. ret (Some (TypeExpression t)) p1)
         else if Matches curr [''(''] then
           seq (parseTupleType k p) (\<lambda>t p1. ret (Some (TypeExpression t)) p1)
         else if Matches curr [''struct''] then
           seq (parseStructureType k p) (\<lambda>t p1. ret (Some (TypeExpression t)) p1)
         else if Kind curr = Identifier then
           seq (parseUnresolvedType p) (\<lambda>t p1. ret (Some (TypeExpression t)) p1)
         else
           ret None
             (error_p (UnimplementedError [''parseTypeExpression'', ''type''] [start, pos p]) p))"

subsection \<open>Function prototypes\<close>

fun parseArgumentsLoop ::
  "nat \<Rightarrow> calls \<Rightarrow> nat \<Rightarrow> nat \<Rightarrow> NamedType list \<Rightarrow> parser \<Rightarrow> NamedType list parse"
where
  "parseArgumentsLoop 0 k from0 idx args p = None"
| "parseArgumentsLoop (Suc n) k from0 idx args p =
     (if \<not> hasNext p then ret args p
      else if Matches (next_p p) ['')''] then ret args p
      else
        (let p1 = (if idx \<noteq> 0 then snd (expect '','' p) else p);
             (mutable, p2) =
               (if Matches (next_p p1) [''mut''] then (True, snd (consume_p p1)) else (False, p1));
             (owned, p3) =
               (if Matches (next_p p2) [''~''] then (False, snd (consume_p p2)) else (True, p2));
             (name, p4) = expectKind Identifier p3
         in seq (call_parseExpression k p4) (\<lambda>typ p5.
              let p6 = errorIf (typ = None) (ParseError ''type after pointer'' [from0, pos p5]) p5
              in parseArgumentsLoop n k from0 (idx + 1)
                   (args @ [NamedType mutable name owned typ]) p6)))"

definition parseFunctionPrototypeDeclaration ::
  "calls \<Rightarrow> parser \<Rightarrow> FunctionPrototypeDeclaration parse"
where
  "parseFunctionPrototypeDeclaration k p =
     (let start = pos p;
          (kw, p1) = expect ''fn'' p;
          (name, p2) = expectKind Identifier p1;
          (lp, p3) = expect ''('' p2
      in seq (parseArgumentsLoop (fuel k) k start 0 [] p3) (\<lambda>args p4.
           let (rp, p5) = expect '')'' p4
           in seq (if \<not> Matches (next_p p5) [''{'', '';'', '',''] then parseTypeExpression k p5
                   else ret None p5)
                (\<lambda>typ p6. ret (FunctionPrototypeDeclaration name args typ) p6)))"

subsection \<open>Statements that end in a semicolon\<close>

definition parseMut :: "calls \<Rightarrow> parser \<Rightarrow> ParseTreeNode option parse" where
  "parseMut k p =
     (let start = pos p;
          (kw, p1) = expect ''mut'' p;
          (owned, p2) =
            (if Matches (next_p p1) [''~''] then (False, snd (consume_p p1)) else (True, p1));
          (name, p3) = expectKind Identifier p2
      in seq (if \<not> Matches (next_p p3) [''=''] then
                seq (parseTypeExpression k p3) (\<lambda>typ q.
                  ret typ (errorIf (typ = None)
                             (ParseError ''type after assignment'' [start, pos q]) q))
              else ret None p3)
           (\<lambda>typ p4.
         seq (if Matches (next_p p4) [''=''] then
                (let (eq, p5) = expect ''='' p4
                 in seq (call_parseExpression k p5) (\<lambda>val q.
                      ret val (errorIf (val = None) (ParseError ''assignment'' [start, pos q]) q)))
              else ret None p4)
           (\<lambda>val p6.
              ret (Some (MutableStatement name owned typ val))
                (errorIf (val = None \<and> typ = None)
                   (ParseError ''value or type in mut statement'' [start, pos p6]) p6))))"

definition parseLet :: "calls \<Rightarrow> parser \<Rightarrow> ParseTreeNode option parse" where
  "parseLet k p =
     (let start = pos p;
          (kw, p1) = expect ''let'' p;
          (owned, p2) =
            (if Matches (next_p p1) [''~''] then (False, snd (consume_p p1)) else (True, p1));
          (name, p3) = expectKind Identifier p2
      in seq (if \<not> Matches (next_p p3) [''=''] then
                seq (parseTypeExpression k p3) (\<lambda>typ q.
                  ret typ (errorIf (typ = None) (ParseError ''type or assignment'' [start, pos q]) q))
              else ret None p3)
           (\<lambda>typ p4.
         seq (if Matches (next_p p4) [''=''] then
                (let (eq, p5) = expect ''='' p4
                 in seq (call_parseExpression k p5) (\<lambda>val q.
                      ret val (errorIf (val = None)
                                 (ParseError ''expression in let statement'' [start, pos q]) q)))
              else ret None p4)
           (\<lambda>val p6. ret (Some (LetStatement name owned typ val)) p6)))"

definition parseReturn :: "calls \<Rightarrow> parser \<Rightarrow> ParseTreeNode option parse" where
  "parseReturn k p =
     (if \<not> Matches (next_p p) [''return''] then ret None p
      else
        (let start = pos p; (kw, p1) = expect ''return'' p
         in seq (if \<not> Matches (next_p p1) ['';''] then
                   seq (call_parseExpression k p1) (\<lambda>res q.
                     ret res (errorIf (res = None)
                                (ParseError ''semi-colon or expression'' [start, pos q]) q))
                 else ret None p1)
              (\<lambda>res p2. ret (Some (ReturnStatement res)) p2)))"

definition parseNext :: "parser \<Rightarrow> ParseTreeNode option parse" where
  "parseNext p = (let (kw, p1) = expect ''next'' p in ret (Some NextStatement) p1)"

definition parseBreak :: "parser \<Rightarrow> ParseTreeNode option parse" where
  "parseBreak p = (let (kw, p1) = expect ''break'' p in ret (Some BreakStatement) p1)"

definition parseTypeAlias :: "calls \<Rightarrow> parser \<Rightarrow> ParseTreeNode option parse" where
  "parseTypeAlias k p =
     (let start = pos p;
          (kw, p1) = expect ''type'' p;
          (name, p2) = expectKind Identifier p1;
          (eq, p3) = expect ''='' p2
      in seq (parseTypeExpression k p3) (\<lambda>typ p4.
           ret (Some (TypeAliasStatement name typ))
             (errorIf (typ = None) (ParseError ''type or assignment'' [start, pos p4]) p4)))"

definition parseLabel :: "parser \<Rightarrow> ParseTreeNode option parse" where
  "parseLabel p =
     (if \<not> Matches (next_p p) [''$''] then ret None p
      else
        (let (dollar, p1) = expect ''$'' p; (labelName, p2) = expectKind Identifier p1
         in ret (Some (LabelStatement labelName)) p2))"

definition parseJump :: "parser \<Rightarrow> ParseTreeNode option parse" where
  "parseJump p =
     (if \<not> Matches (next_p p) [''jump''] then ret None p
      else
        (let (kw, p1) = expect ''jump'' p; (label, p2) = expectKind Identifier p1
         in ret (Some (JumpStatement label)) p2))"

subsection \<open>Expressions\<close>

definition assignOperators :: "string list" where
  "assignOperators = [''='', ''+='', ''-='', ''*='', ''/='']"

definition unaryOperators :: "string list" where
  "unaryOperators = [''-'', ''!'', ''+'', ''@'', ''&'', ''~'']"

definition builtins :: "string list" where
  "builtins = [''alloc'', ''sizeof'', ''len'', ''free'', ''move'', ''ref'']"

definition opPrec :: "(string \<times> int) list" where
  "opPrec =
     [(''*'', 5), (''/'', 5), (''%'', 5),
      (''+'', 4), (''-'', 4),
      (''=='', 3), (''!='', 3), (''<'', 3), (''<='', 3), (''>'', 3), (''>='', 3),
      (''&&'', 2),
      (''||'', 1)]"

definition getOpPrec :: "string \<Rightarrow> int" where
  "getOpPrec op = (case map_of opPrec op of Some prec \<Rightarrow> prec | None \<Rightarrow> - 1)"

text \<open>
  \<^verbatim>\<open>new(big.Int).SetString(s, 10)\<close>: an optional sign and decimal digits, at least one.
\<close>

definition digit :: "char \<Rightarrow> nat option" where
  "digit c =
     (let x = (of_char c :: nat) in if 48 \<le> x \<and> x \<le> 57 then Some (x - 48) else None)"

fun decimal :: "nat \<Rightarrow> string \<Rightarrow> nat option" where
  "decimal acc [] = Some acc"
| "decimal acc (c # cs) = (case digit c of None \<Rightarrow> None | Some d \<Rightarrow> decimal (10 * acc + d) cs)"

definition SetString :: "string \<Rightarrow> int option" where
  "SetString s =
     (case s of
        [] \<Rightarrow> None
      | c # cs \<Rightarrow>
          if c = CHR ''-'' then (if cs = [] then None else map_option (\<lambda>n. - int n) (decimal 0 cs))
          else if c = CHR ''+'' then (if cs = [] then None else map_option int (decimal 0 cs))
          else map_option int (decimal 0 s))"

definition parseUnaryExpr :: "calls \<Rightarrow> parser \<Rightarrow> ExpressionNode option parse" where
  "parseUnaryExpr k p =
     (if \<not> hasNext p \<or> \<not> Matches (next_p p) unaryOperators then ret None p
      else
        (let start = pos p; (op, p1) = consume_p p
         in seq (call_parseLeft k p1) (\<lambda>right p2.
              ret (Some (UnaryExpression (Value op) right))
                (errorIf (right = None) (ParseError ''unary expression'' [start, pos p2]) p2))))"

fun parseGroupedListLoop ::
  "nat \<Rightarrow> calls \<Rightarrow> ExpressionNode option list \<Rightarrow> parser \<Rightarrow> ExpressionNode option list parse"
where
  "parseGroupedListLoop 0 k list p = None"
| "parseGroupedListLoop (Suc n) k list p =
     (if \<not> (hasNext p \<and> Matches (next_p p) ['','']) then ret list p
      else
        (let (comma, p1) = expect '','' p
         in seq (call_parseExpression k p1) (\<lambda>val p2.
              if val = None then Some (Inl (Panic ''todo''))
              else parseGroupedListLoop n k (list @ [val]) p2)))"

definition parseGroupedList ::
  "calls \<Rightarrow> ExpressionNode option \<Rightarrow> parser \<Rightarrow> ExpressionNode option parse"
where
  "parseGroupedList k first p =
     seq (parseGroupedListLoop (fuel k) k [first] p) (\<lambda>list p1.
       let (rp, p2) = expect '')'' p1 in ret (Some (ListExpression list)) p2)"

definition parseOperand :: "calls \<Rightarrow> parser \<Rightarrow> ExpressionNode option parse" where
  "parseOperand k p =
     (if \<not> hasNext p then ret None p
      else
        (let start = pos p; curr = next_p p
         in if Matches curr [''(''] then
              (let (lp, p1) = expect ''('' p
               in seq (call_parseExpression k p1) (\<lambda>expr p2.
                    if Matches (next_p p2) ['',''] then parseGroupedList k expr p2
                    else (let (rp, p3) = expect '')'' p2 in ret (Some (Grouping expr)) p3)))
            else
              (let (curr, p1) = consume_p p
               in (case Kind curr of
                     Number \<Rightarrow>
                       if CHR ''.'' \<notin> set (Value curr) then
                         ret (Some (ConstantExpression (IntegerConstant (SetString (Value curr))))) p1
                       else
                         (case ParseFloat k (Value curr) of
                            Inl err \<Rightarrow> Some (Inl err)
                          | Inr val \<Rightarrow> ret (Some (ConstantExpression (FloatingConstant val))) p1)
                   | Identifier \<Rightarrow> ret (Some (ConstantExpression (VariableReference curr))) p1
                   | Char_t \<Rightarrow> ret (Some (ConstantExpression (CharacterConstant (Value curr)))) p1
                   | String_t \<Rightarrow> ret (Some (ConstantExpression (StringConstant (Value curr)))) p1
                   | EndOfFile \<Rightarrow> ret None p1
                   | _ \<Rightarrow>
                       ret None
                         (error_p (UnimplementedError [''parse'', ''kind''] [start, pos p1]) p1)))))"

fun parseArgsLoop ::
  "nat \<Rightarrow> calls \<Rightarrow> string \<Rightarrow> ExpressionNode option list \<Rightarrow> parser
     \<Rightarrow> ExpressionNode option list parse"
where
  "parseArgsLoop 0 k close args p = None"
| "parseArgsLoop (Suc n) k close args p =
     (if \<not> hasNext p then ret args p
      else
        (let p1 = (if Matches (next_p p) ['',''] then snd (consume_p p) else p)
         in if Matches (next_p p1) [close] then ret args p1
            else seq (call_parseExpression k p1) (\<lambda>arg p2.
                   parseArgsLoop n k close (if arg \<noteq> None then args @ [arg] else args) p2)))"

definition parseBuiltin :: "calls \<Rightarrow> parser \<Rightarrow> ExpressionNode option parse" where
  "parseBuiltin k p =
     (let (builtin, p1) = expectKind Identifier p;
          (bang, p2) = expect ''!'' p1;
          (parens, p3) =
            (if Matches (next_p p2) [''(''] then (True, snd (consume_p p2)) else (False, p2));
          (ref, p4) = expectKind Identifier p3
      in seq (if parens then
                seq (parseArgsLoop (fuel k) k '')'' [] p4) (\<lambda>args q.
                  let (rp, q1) = expect '')'' q in ret args q1)
              else ret [] p4)
           (\<lambda>args p5. ret (Some (BuiltinExpression (Value builtin) ref args)) p5))"

fun parseCallLoop ::
  "nat \<Rightarrow> calls \<Rightarrow> nat \<Rightarrow> nat \<Rightarrow> ExpressionNode option list \<Rightarrow> parser
     \<Rightarrow> ExpressionNode option list parse"
where
  "parseCallLoop 0 k from0 idx params p = None"
| "parseCallLoop (Suc n) k from0 idx params p =
     (if \<not> (hasNext p \<and> \<not> Matches (next_p p) ['')'']) then ret params p
      else
        (let p1 = (if idx \<noteq> 0 then snd (expect '','' p) else p)
         in seq (call_parseExpression k p1) (\<lambda>val p2.
              parseCallLoop n k from0 (idx + 1) (params @ [val])
                (errorIf (val = None)
                   (ParseError ''parameter in call expression'' [from0, pos p2]) p2))))"

definition parseCall :: "calls \<Rightarrow> ExpressionNode \<Rightarrow> parser \<Rightarrow> ExpressionNode option parse" where
  "parseCall k left p =
     (let start = pos p; (lp, p1) = expect ''('' p
      in seq (parseCallLoop (fuel k) k start 0 [] p1) (\<lambda>params p2.
           let (rp, p3) = expect '')'' p2 in ret (Some (CallExpression (Some left) params)) p3))"

definition parseIndex :: "calls \<Rightarrow> ExpressionNode \<Rightarrow> parser \<Rightarrow> ExpressionNode option parse" where
  "parseIndex k left p =
     (let start = pos p; (lb, p1) = expect ''['' p
      in seq (call_parseExpression k p1) (\<lambda>val p2.
           let p3 = errorIf (val = None)
                      (ParseError ''expression in array index'' [start, pos p2]) p2;
               (rb, p4) = expect '']'' p3
           in ret (Some (IndexExpression (Some left) val)) p4))"

definition parseLambda :: "calls \<Rightarrow> parser \<Rightarrow> ExpressionNode option parse" where
  "parseLambda k p =
     seq (parseFunctionPrototypeDeclaration k p) (\<lambda>proto p1.
     seq (call_parseStatBlock k p1) (\<lambda>body p2. ret (Some (LambdaExpression proto body)) p2))"

definition parseInitializer :: "calls \<Rightarrow> parser \<Rightarrow> ExpressionNode option parse" where
  "parseInitializer k p =
     (let (colon, p1) = expect '':'' p;
          (lhand, p2) = expectKind Identifier p1;
          (lb, p3) = expect ''{'' p2
      in seq (parseArgsLoop (fuel k) k ''}'' [] p3) (\<lambda>els p4.
           let (rb, p5) = expect ''}'' p4
           in ret (Some (InitializerExpression InitStructure lhand els)) p5))"

definition parsePrimaryExpr :: "calls \<Rightarrow> parser \<Rightarrow> ExpressionNode option parse" where
  "parsePrimaryExpr k p =
     (if \<not> hasNext p then ret None p
      else if Matches (next_p p) [''struct'', ''*'', ''['', ''(''] then parseTypeExpression k p
      else if Matches (next_p p) ['':''] then parseInitializer k p
      else if Matches (next_p p) [''fn''] then parseLambda k p
      else if Matches (next_p p) unaryOperators then parseUnaryExpr k p
      else if Matches (next_p p) builtins then parseBuiltin k p
      else
        seq (parseOperand k p) (\<lambda>left p1.
          (case left of
             None \<Rightarrow> ret None p1
           | Some l \<Rightarrow>
               if Matches (next_p p1) [''[''] then parseIndex k l p1
               else if Matches (next_p p1) [''(''] then parseCall k l p1
               else ret left p1)))"

definition parseLeft :: "calls \<Rightarrow> parser \<Rightarrow> ExpressionNode option parse" where
  "parseLeft k p =
     seq (parsePrimaryExpr k p) (\<lambda>expr p1.
       if expr \<noteq> None then ret expr p1 else parseUnaryExpr k p1)"

text \<open>
  \<^verbatim>\<open>parsePrec\<close>: a round of its loop is a call with the new \<open>left\<close>; the first argument
  bounds the rounds and the depth together.
\<close>

fun parsePrec ::
  "nat \<Rightarrow> calls \<Rightarrow> int \<Rightarrow> ExpressionNode \<Rightarrow> parser \<Rightarrow> ExpressionNode option parse"
where
  "parsePrec 0 k lastPrec left p = None"
| "parsePrec (Suc n) k lastPrec left p =
     (if \<not> hasNext p then ret (Some left) p
      else
        (let prec = getOpPrec (Value (next_p p))
         in if prec < lastPrec then ret (Some left) p
            else if \<not> hasNext p then ret (Some left) p
            else if map_of opPrec (Value (next_p p)) = None then ret (Some left) p
            else
              (let (op, p1) = consume_p p
               in seq (parsePrimaryExpr k p1) (\<lambda>right p2.
                    if right = None then ret None p2
                    else if \<not> hasNext p2 then
                      ret (Some (BinaryExpression (Some left) (Value op) right)) p2
                    else
                      (let nextPrec = getOpPrec (Value (next_p p2))
                       in seq (case right of
                                 Some r \<Rightarrow>
                                   if prec < nextPrec then parsePrec n k (prec + 1) r p2
                                   else ret right p2
                               | None \<Rightarrow> ret right p2)
                            (\<lambda>right' p3.
                               if right' = None then ret None p3
                               else parsePrec n k lastPrec
                                      (BinaryExpression (Some left) (Value op) right') p3))))))"

definition parseAssign :: "calls \<Rightarrow> ExpressionNode \<Rightarrow> parser \<Rightarrow> ExpressionNode option parse" where
  "parseAssign k left p =
     (if \<not> hasNext p then ret None p
      else
        (let start = pos p; (op, p1) = consume_p p
         in seq (call_parseExpression k p1) (\<lambda>right p2.
              ret (Some (AssignStatement (Some left) (Value op) right))
                (errorIf (right = None)
                   (ParseError ''expression after assignment operator'' [start, pos p2]) p2))))"

fun parseDotListLoop ::
  "nat \<Rightarrow> calls \<Rightarrow> nat \<Rightarrow> ExpressionNode option list \<Rightarrow> parser
     \<Rightarrow> ExpressionNode option list parse"
where
  "parseDotListLoop 0 k from0 list p = None"
| "parseDotListLoop (Suc n) k from0 list p =
     (if \<not> (hasNext p \<and> Matches (next_p p) [''.'']) then ret list p
      else
        (let (dot, p1) = expect ''.'' p
         in seq (call_parseExpression k p1) (\<lambda>val p2.
              parseDotListLoop n k from0 (list @ [val])
                (errorIf (val = None) (ParseError ''expression in dot-list'' [from0, pos p2]) p2))))"

definition parseDotList :: "calls \<Rightarrow> ExpressionNode \<Rightarrow> parser \<Rightarrow> ExpressionNode option parse" where
  "parseDotList k left p =
     seq (parseDotListLoop (fuel k) k (pos p) [Some left] p) (\<lambda>list p1.
       ret (Some (PathExpression list)) p1)"

definition parseExpression :: "calls \<Rightarrow> parser \<Rightarrow> ExpressionNode option parse" where
  "parseExpression k p =
     seq (parseLeft k p) (\<lambda>left p1.
       (case left of
          None \<Rightarrow> ret None p1
        | Some l \<Rightarrow>
            if Matches (next_p p1) [''.''] then parseDotList k l p1
            else if Matches (next_p p1) assignOperators then parseAssign k l p1
            else if map_of opPrec (Value (next_p p1)) \<noteq> None then parsePrec (fuel k) k 0 l p1
            else ret left p1))"

definition parseExpressionStatement :: "calls \<Rightarrow> parser \<Rightarrow> ParseTreeNode option parse" where
  "parseExpressionStatement k p =
     seq (parseExpression k p) (\<lambda>expr p1.
       if expr \<noteq> None then ret (Some (ExpressionStatement expr)) p1 else ret None p1)"

subsection \<open>Statements\<close>

definition parseSemicolonStatement :: "calls \<Rightarrow> parser \<Rightarrow> ParseTreeNode option parse" where
  "parseSemicolonStatement k p =
     (let curr = next_p p
      in if Matches curr [''mut''] then parseMut k p
         else if Matches curr [''let''] then parseLet k p
         else if Matches curr [''type''] then parseTypeAlias k p
         else if Matches curr [''return''] then parseReturn k p
         else if Matches curr [''$''] then parseLabel p
         else if Matches curr [''jump''] then parseJump p
         else if Matches curr [''next''] then parseNext p
         else if Matches curr [''break''] then parseBreak p
         else parseExpressionStatement k p)"

fun parseStatBlockLoop ::
  "nat \<Rightarrow> calls \<Rightarrow> ParseTreeNode option list \<Rightarrow> parser \<Rightarrow> ParseTreeNode option list parse"
where
  "parseStatBlockLoop 0 k stats p = None"
| "parseStatBlockLoop (Suc n) k stats p =
     (if \<not> hasNext p then ret stats p
      else if Matches (next_p p) [''}''] then ret stats p
      else seq (call_parseStatement k p) (\<lambda>stat p1.
             parseStatBlockLoop n k (if stat \<noteq> None then stats @ [stat] else stats) p1))"

definition parseStatBlock :: "calls \<Rightarrow> parser \<Rightarrow> BlockNode option parse" where
  "parseStatBlock k p =
     (if \<not> Matches (next_p p) [''{''] then ret None p
      else
        (let (lb, p1) = expect ''{'' p
         in seq (parseStatBlockLoop (fuel k) k [] p1) (\<lambda>stats p2.
              let (rb, p3) = expect ''}'' p2 in ret (Some (BlockNode stats)) p3)))"

fun parseElseIfLoop ::
  "nat \<Rightarrow> calls \<Rightarrow> nat \<Rightarrow> (ExpressionNode option \<times> BlockNode option) list \<Rightarrow> parser
     \<Rightarrow> (ExpressionNode option \<times> BlockNode option) list parse"
where
  "parseElseIfLoop 0 k from0 elses p = None"
| "parseElseIfLoop (Suc n) k from0 elses p =
     (if \<not> hasNext p then ret elses p
      else
        (let (kw1, p1) = expect ''else'' p; (kw2, p2) = expect ''if'' p1
         in seq (parseExpression k p2) (\<lambda>cond p3.
              if cond = None then
                ret elses (error_p (ParseError ''condition in else if'' [from0, pos p3]) p3)
              else
                seq (parseStatBlock k p3) (\<lambda>body p4.
                  if body = None then
                    ret elses (error_p (ParseError ''block after else if'' [from0, pos p4]) p4)
                  else parseElseIfLoop n k from0 (elses @ [(cond, body)]) p4))))"

definition parseIfElseChain :: "calls \<Rightarrow> parser \<Rightarrow> ParseTreeNode option parse" where
  "parseIfElseChain k p =
     (if \<not> Matches (next_p p) [''if''] then ret None p
      else
        (let start = pos p; (kw, p1) = expect ''if'' p
         in seq (parseExpression k p1) (\<lambda>expr p2.
            seq (parseStatBlock k (errorIf (expr = None) (ParseError ''condition'' [start, pos p2]) p2))
              (\<lambda>block p3.
            let p4 = errorIf (block = None) (ParseError ''block after condition'' [start, pos p3]) p3
            in if Matches (next_p p4) [''else''] \<and> hasNext p4 \<and> Matches (peek_p 1 p4) [''if''] then
                 seq (parseElseIfLoop (fuel k) k start [] p4) (\<lambda>elses p5.
                   ret (Some (IfStatement expr block elses None)) p5)
               else if Matches (next_p p4) [''else''] then
                 (let (kw2, p5) = expect ''else'' p4
                  in seq (parseStatBlock k p5) (\<lambda>body p6.
                       ret (Some (IfStatement expr block [] body))
                         (errorIf (body = None) (ParseError ''block after else'' [start, pos p6]) p6)))
               else ret (Some (IfStatement expr block [] None)) p4))))"

definition parseWhileLoop :: "calls \<Rightarrow> parser \<Rightarrow> ParseTreeNode option parse" where
  "parseWhileLoop k p =
     (if \<not> Matches (next_p p) [''while''] then ret None p
      else
        (let start = pos p; (kw, p1) = expect ''while'' p
         in seq (parseExpression k p1) (\<lambda>val p2.
            let p3 = errorIf (val = None) (ParseError ''condition after while'' [start, pos p2]) p2
            in seq (if Matches (next_p p3) ['';''] then
                      (let (semi, p4) = expect '';'' p3
                       in seq (parseExpression k p4) (\<lambda>post q.
                            ret post (errorIf (post = None)
                              (ParseError ''step expression in while loop'' [start, pos q]) q)))
                    else ret None p3)
                 (\<lambda>post p5.
                    seq (parseStatBlock k p5) (\<lambda>block p6.
                      if block \<noteq> None then ret (Some (WhileLoopStatement val post block)) p6
                      else ret None p6)))))"

definition parseLoop :: "calls \<Rightarrow> parser \<Rightarrow> ParseTreeNode option parse" where
  "parseLoop k p =
     (if \<not> Matches (next_p p) [''loop''] then ret None p
      else
        (let (kw, p1) = expect ''loop'' p
         in seq (parseStatBlock k p1) (\<lambda>block p2.
              if block \<noteq> None then ret (Some (LoopStatement block)) p2 else ret None p2)))"

definition parseDefer :: "calls \<Rightarrow> parser \<Rightarrow> ParseTreeNode option parse" where
  "parseDefer k p =
     (if \<not> Matches (next_p p) [''defer''] then ret None p
      else
        (let (kw, p1) = expect ''defer'' p
         in if Matches (next_p p1) [''{''] then
              seq (parseStatBlock k p1) (\<lambda>b p2.
                if b = None then ret None (error_p (ParseError ''Expected a block yo'' []) p2)
                else ret (Some (DeferStatement b None)) p2)
            else
              seq (call_parseStatement k p1) (\<lambda>stat p2. ret (Some (DeferStatement None stat)) p2)))"

definition parseStatement :: "calls \<Rightarrow> parser \<Rightarrow> ParseTreeNode option parse" where
  "parseStatement k p =
     (let curr = next_p p
      in if Matches curr [''if''] then parseIfElseChain k p
         else if Matches curr [''loop''] then parseLoop k p
         else if Matches curr [''while''] then parseWhileLoop k p
         else if Matches curr [''defer''] then parseDefer k p
         else if Matches curr [''{''] then
           seq (parseStatBlock k p) (\<lambda>b p1. ret (Some (BlockStatement b)) p1)
         else
           seq (parseSemicolonStatement k p) (\<lambda>stat p1.
             if stat \<noteq> None then (let (semi, p2) = expect '';'' p1 in ret stat p2)
             else ret stat p1))"

subsection \<open>Declarations\<close>

definition parseFunctionDeclaration :: "calls \<Rightarrow> parser \<Rightarrow> FunctionDeclaration parse" where
  "parseFunctionDeclaration k p =
     seq (parseFunctionPrototypeDeclaration k p) (\<lambda>proto p1.
     seq (parseStatBlock k p1) (\<lambda>body p2. ret (FunctionDeclaration proto body) p2))"

fun parseImplLoop ::
  "nat \<Rightarrow> calls \<Rightarrow> FunctionDeclaration list \<Rightarrow> parser \<Rightarrow> FunctionDeclaration list parse"
where
  "parseImplLoop 0 k functions p = None"
| "parseImplLoop (Suc n) k functions p =
     (if \<not> hasNext p then ret functions p
      else if Matches (next_p p) [''}''] then ret functions p
      else seq (parseFunctionDeclaration k p) (\<lambda>fn p1.
             parseImplLoop n k (functions @ [fn]) p1))"

definition parseImplDeclaration :: "calls \<Rightarrow> parser \<Rightarrow> ParseTreeNode option parse" where
  "parseImplDeclaration k p =
     (let (kw, p1) = expect ''impl'' p;
          (name, p2) = expectKind Identifier p1;
          (lb, p3) = expect ''{'' p2
      in seq (parseImplLoop (fuel k) k [] p3) (\<lambda>functions p4.
           let (rb, p5) = expect ''}'' p4 in ret (Some (ImplDeclStatement name functions)) p5))"

fun parseTraitLoop ::
  "nat \<Rightarrow> calls \<Rightarrow> FunctionPrototypeDeclaration list \<Rightarrow> parser
     \<Rightarrow> FunctionPrototypeDeclaration list parse"
where
  "parseTraitLoop 0 k members p = None"
| "parseTraitLoop (Suc n) k members p =
     (if \<not> hasNext p then ret members p
      else if Matches (next_p p) [''}''] then ret members p
      else seq (parseFunctionPrototypeDeclaration k p) (\<lambda>pt p1.
             let (semi, p2) = expect '';'' p1 in parseTraitLoop n k (members @ [pt]) p2))"

definition parseTraitDeclaration :: "calls \<Rightarrow> parser \<Rightarrow> ParseTreeNode option parse" where
  "parseTraitDeclaration k p =
     (let (kw, p1) = expect ''trait'' p;
          (name, p2) = expectKind Identifier p1;
          (lb, p3) = expect ''{'' p2
      in seq (parseTraitLoop (fuel k) k [] p3) (\<lambda>members p4.
           let (rb, p5) = expect ''}'' p4 in ret (Some (TraitDeclStatement name members)) p5))"

text \<open>The loop of \<^verbatim>\<open>skipDirective\<close> consumes a token in every round, so it ends.\<close>

function skipDirectiveLoop :: "parser \<Rightarrow> parser" where
  "skipDirectiveLoop p =
     (if hasNext p \<and> \<not> Matches (next_p p) [''}''] then skipDirectiveLoop (snd (consume_p p))
      else p)"
  by pat_completeness auto
termination
  by (relation "measure (\<lambda>p. length (toks p) - pos p)") (auto simp: hasNext_def consume_p_def)

definition skipDirective :: "parser \<Rightarrow> parser" where
  "skipDirective p =
     (let (hash, p1) = expect ''#'' p; (lb, p2) = expect ''{'' p1;
          (rb, p3) = expect ''}'' (skipDirectiveLoop p2)
      in p3)"

definition parseNode :: "calls \<Rightarrow> parser \<Rightarrow> (ParseTreeNode option \<times> bool) parse" where
  "parseNode k p =
     (let start = pos p; startingTok = next_p p; curr = next_p p
      in if Matches curr [''#''] then ret (None, True) (skipDirective p)
         else if Matches curr [''trait''] then
           seq (parseTraitDeclaration k p) (\<lambda>res p1. ret (res, True) p1)
         else if Matches curr [''impl''] then
           seq (parseImplDeclaration k p) (\<lambda>res p1. ret (res, True) p1)
         else if Matches curr [''fn''] then
           seq (parseFunctionDeclaration k p) (\<lambda>fd p1. ret (Some (FunctionDeclStatement fd), True) p1)
         else if Matches curr [''type''] then
           seq (parseTypeAlias k p) (\<lambda>res p1. ret (res, True) (snd (expect '';'' p1)))
         else if Matches curr [''mut''] then
           seq (parseMut k p) (\<lambda>res p1. ret (res, True) (snd (expect '';'' p1)))
         else if Matches curr [''let''] then
           seq (parseLet k p) (\<lambda>res p1. ret (res, True) (snd (expect '';'' p1)))
         else
           seq (parseExpressionStatement k p) (\<lambda>res p1.
             ret (res, True)
               (snd (expect '';''
                  (errorIf (res = None)
                     (UnimplementedError [''parse'', Value startingTok] [start, pos p1]) p1)))))"

subsection \<open>Tying the recursion\<close>

text \<open>
  \<open>level F n\<close> is what a parse function may call when it runs with fuel \<open>n\<close>: nothing
  returns at fuel \<open>0\<close>, and at fuel \<open>n + 1\<close> the five functions run with fuel \<open>n\<close>.
\<close>

primrec level :: "(string \<Rightarrow> error + float64) \<Rightarrow> nat \<Rightarrow> calls" where
  "level F 0 =
     \<lparr>fuel = 0, ParseFloat = F,
      call_parseTypeExpression = (\<lambda>p. None),
      call_parseExpression = (\<lambda>p. None),
      call_parseLeft = (\<lambda>p. None),
      call_parseStatement = (\<lambda>p. None),
      call_parseStatBlock = (\<lambda>p. None)\<rparr>"
| "level F (Suc n) =
     \<lparr>fuel = Suc n, ParseFloat = F,
      call_parseTypeExpression = parseTypeExpression (level F n),
      call_parseExpression = parseExpression (level F n),
      call_parseLeft = parseLeft (level F n),
      call_parseStatement = parseStatement (level F n),
      call_parseStatBlock = parseStatBlock (level F n)\<rparr>"

fun parseNodesLoop ::
  "nat \<Rightarrow> calls \<Rightarrow> ParseTreeNode option list \<Rightarrow> parser \<Rightarrow> ParseTreeNode option list parse"
where
  "parseNodesLoop 0 k nodes p = None"
| "parseNodesLoop (Suc n) k nodes p =
     (if \<not> hasNext p then ret nodes p
      else seq (parseNode k p) (\<lambda>(node, ok) p1.
             if \<not> ok then ret nodes p1
             else parseNodesLoop n k (if node \<noteq> None then nodes @ [node] else nodes) p1))"

text \<open>\<^verbatim>\<open>ParseTokenStream\<close>, given the fuel \<open>n\<close>: the nodes and the diagnostics.\<close>

definition ParseTokenStream ::
  "(string \<Rightarrow> error + float64) \<Rightarrow> nat \<Rightarrow> Token list
     \<Rightarrow> (error + ParseTreeNode option list \<times> CompilerError list) option"
where
  "ParseTokenStream F n ts =
     (case parseNodesLoop n (level F n) [] (new_parser ts 0 []) of
        None \<Rightarrow> None
      | Some (Inl e) \<Rightarrow> Some (Inl e)
      | Some (Inr (nodes, p)) \<Rightarrow> Some (Inr (nodes, errors p)))"

section \<open>The intermediate representation (package ir)\<close>

text \<open>
  Modelled from the spec: the declarations of the IR are not in the source. The
  constructors carry the names of the \<^verbatim>\<open>Kind\<close> constants by which the builder tags values,
  types and instructions, with the arguments of the \<^verbatim>\<open>New...\<close> call next to the tag.
  \<open>NoValue\<close> is the empty \<^verbatim>\<open>&Value{}\<close> that a lambda lowers to. \<open>AllocaInstr\<close> is
  the instruction that only the passes of package \<^verbatim>\<open>middle\<close> know.
\<close>

datatype Type =
    PrimitiveKind string
  | PointerKind Type
  | ArrayKind Type Value
  | TupleKind "Type list"
  | ReferenceKind string
  | StructureKind Structure
and Structure =
    NewStructure (StructureName: Token) (Fields: "(Token \<times> bool \<times> Type) list")
and Value =
    IntegerValueValue "int option"
  | FloatingValueValue float64
  | StringValueValue string
  | CharacterValueValue string
  | IdentifierValue Token
  | BinaryExpressionValue Value string Value
  | UnaryExpressionValue string Value
  | GroupingValue Value
  | BuiltinValue string Type "Value list"
  | CallValue Value "Value list"
  | IndexValue Value Value
  | PathValue "Value list"
  | InitValue InitKind "Token option" "Value list"
  | AssignValue Value string Value
  | NoValue

text \<open>
  A symbol table is an object on the heap, shared by pointer between the blocks, the
  functions and the tables whose \<^verbatim>\<open>Outer\<close> it is; a pointer to one is its address.
\<close>

type_synonym addr = nat

datatype Instruction =
    LocalInstr Token "Type option" bool bool "Value option"
  | AllocaInstr Token "Type option" "Value option"
  | ReturnInstr "Value option"
  | IfStatementInstr Value Block "(Value \<times> Block) list" "Block option"
  | WhileLoopInstr Value "Value option" Block
  | LoopInstr Block
  | BlockInstr Block
  | BreakInstr
  | NextInstr
  | JumpInstr Token
  | LabelInstr Token
  | ExpressionInstr Value
  | DeferInstr "Instruction option" "Block option"
and Block =
    Block (Instr: "Instruction list")
          (DeferStack: "(Instruction option \<times> Block option) list")
          (Return: "Instruction option")
          (Stab: "addr option")

text \<open>
  Modelled from the spec: the methods of \<^verbatim>\<open>Block\<close> are not in the source. A block holds its
  ordered instructions, its deferred statements and one trailing-return slot. Where its
  scope is created the source does not show: a new block has none yet.
\<close>

definition NewBlock :: Block where
  "NewBlock = Block [] [] None None"

fun AddInstr :: "Instruction \<Rightarrow> Block \<Rightarrow> Block" where
  "AddInstr st (Block is ds r s) = Block (is @ [st]) ds r s"

fun PushDefer :: "Instruction option \<times> Block option \<Rightarrow> Block \<Rightarrow> Block" where
  "PushDefer d (Block is ds r s) = Block is (ds @ [d]) r s"

fun SetReturn :: "Instruction \<Rightarrow> Block \<Rightarrow> Block" where
  "SetReturn st (Block is ds r s) = Block is ds (Some st) s"

text \<open>
  Modelled from the spec: \<^verbatim>\<open>TypeDict\<close> is not in the source; it is the ordered mapping from
  a name to an ownership flag and a type. \<^verbatim>\<open>Set\<close> replaces the entry of a name that is
  there and appends one that is not.
\<close>

type_synonym TypeDict = "(Token \<times> bool \<times> Type) list"

definition newTypeDict :: TypeDict where
  "newTypeDict = []"

fun Set :: "Token \<Rightarrow> bool \<Rightarrow> Type \<Rightarrow> TypeDict \<Rightarrow> TypeDict" where
  "Set name owned typ [] = [(name, owned, typ)]"
| "Set name owned typ ((n, e) # d) =
     (if Value n = Value name then (name, owned, typ) # d else (n, e) # Set name owned typ d)"

datatype Function =
  NewFunction (Name: Token) (Mutability: "bool list") (Params: TypeDict) (ReturnType: Type)
              (Body: Block) (FnStab: "addr option")

datatype Impl = Impl (ImplName: Token) (Methods: "(string \<times> Function) list")

definition NewImpl :: "Token \<Rightarrow> Impl" where
  "NewImpl name = Impl name []"

text \<open>
  Modelled from the spec: \<^verbatim>\<open>RegisterMethod\<close> is not in the source. A method whose name the
  impl has already is refused (the result is false) and the one registered first stays.
\<close>

fun RegisterMethod :: "Function \<Rightarrow> Impl \<Rightarrow> bool \<times> Impl" where
  "RegisterMethod f (Impl name ms) =
     (if Value (Name f) \<in> fst ` set ms then (False, Impl name ms)
      else (True, Impl name (ms @ [(Value (Name f), f)])))"

record SymbolTable =
  Types :: "(string \<times> Type) list"
  Outer :: "addr option"

text \<open>
  Modelled from the spec: \<^verbatim>\<open>Module\<close> and its methods are not in the source. The module maps
  names to structures, impls and functions, keeps the order in which the functions were
  declared, and owns the root scope. The maps are association lists: the order in which
  Go ranges over a map is not fixed, and no property below depends on it. \<open>Scopes\<close> is the
  heap of the symbol tables, by address.
\<close>

record Module =
  ModuleName :: string
  Structures :: "(string \<times> Structure) list"
  Impls :: "(string \<times> Impl) list"
  Functions :: "(string \<times> Function) list"
  FunctionOrder :: "Token list"
  Root :: "addr option"
  Scopes :: "addr \<Rightarrow> SymbolTable"

definition NewModule :: "string \<Rightarrow> Module" where
  "NewModule name =
     \<lparr>ModuleName = name, Structures = [], Impls = [], Functions = [], FunctionOrder = [],
      Root = Some 0, Scopes = (\<lambda>a. \<lparr>Types = [], Outer = None\<rparr>)\<rparr>"

text \<open>\<open>put k v m\<close> is the Go assignment \<^verbatim>\<open>m[k] = v\<close>.\<close>

fun put :: "string \<Rightarrow> 'v \<Rightarrow> (string \<times> 'v) list \<Rightarrow> (string \<times> 'v) list" where
  "put k v [] = [(k, v)]"
| "put k v ((k', v') # m) = (if k' = k then (k, v) # m else (k', v') # put k v m)"

definition RegisterStructure :: "Structure \<Rightarrow> Module \<Rightarrow> Module" where
  "RegisterStructure s m = m\<lparr>Structures := put (Value (StructureName s)) s (Structures m)\<rparr>"

definition GetStructure :: "Module \<Rightarrow> string \<Rightarrow> Structure option" where
  "GetStructure m name = map_of (Structures m) name"

text \<open>
  \<^verbatim>\<open>RegisterImpl\<close> answers whether the name was taken already; if so the module keeps the
  impl registered first.
\<close>

definition RegisterImpl :: "Impl \<Rightarrow> Module \<Rightarrow> bool \<times> Module" where
  "RegisterImpl i m =
     (if Value (ImplName i) \<in> fst ` set (Impls m) then (True, m)
      else (False, m\<lparr>Impls := Impls m @ [(Value (ImplName i), i)]\<rparr>))"

definition GetImpl :: "Module \<Rightarrow> string \<Rightarrow> Impl option" where
  "GetImpl m name = map_of (Impls m) name"

definition RegisterFunction :: "Function \<Rightarrow> Module \<Rightarrow> Module" where
  "RegisterFunction f m =
     m\<lparr>Functions := put (Value (Name f)) f (Functions m),
       FunctionOrder := FunctionOrder m @ [Name f]\<rparr>"

section \<open>The IR builder (package ir, \<^verbatim>\<open>build.go\<close>)\<close>

text \<open>\<open>andThen m f\<close> runs \<open>f\<close> on the result of \<open>m\<close> unless \<open>m\<close> panicked.\<close>

definition andThen :: "error + 'a \<Rightarrow> ('a \<Rightarrow> error + 'b) \<Rightarrow> error + 'b" where
  "andThen m f = (case m of Inl e \<Rightarrow> Inl e | Inr x \<Rightarrow> f x)"

text \<open>
  The table \<^verbatim>\<open>PrimitiveType\<close> is not in the source: it is the parameter \<open>P\<close> of the builder.
  Modelled from the spec: \<^verbatim>\<open>Void\<close> is the canonical type that a function without a return
  type gets.
\<close>

type_synonym prims = "string \<Rightarrow> Type option"

definition Void :: Type where
  "Void = PrimitiveKind ''void''"

definition buildUnresolvedType :: "prims \<Rightarrow> string \<Rightarrow> Type" where
  "buildUnresolvedType P name = (case P name of Some t \<Rightarrow> t | None \<Rightarrow> ReferenceKind name)"

fun buildConst :: "ConstantNode \<Rightarrow> Value" where
  "buildConst (IntegerConstant v) = IntegerValueValue v"
| "buildConst (FloatingConstant v) = FloatingValueValue v"
| "buildConst (StringConstant v) = StringValueValue v"
| "buildConst (CharacterConstant v) = CharacterValueValue v"
| "buildConst (VariableReference name) = IdentifierValue name"

text \<open>
  \<^verbatim>\<open>buildExpr\<close> after \<^verbatim>\<open>buildPathExpression\<close>: a path whose last value is a binary expression
  becomes the binary expression, with the path (ending in the former left operand) as its
  left operand. \<^verbatim>\<open>pat.Values[len(pat.Values)-1]\<close> of an empty path is out of range.
\<close>

definition rewritePath :: "Value list \<Rightarrow> error + Value" where
  "rewritePath values =
     (if values = [] then Inl IndexOutOfRange
      else
        (case last values of
           BinaryExpressionValue lh op rh \<Rightarrow>
             Inr (BinaryExpressionValue (PathValue (butlast values @ [lh])) op rh)
         | _ \<Rightarrow> Inr (PathValue values)))"

text \<open>The body of the loop of \<^verbatim>\<open>buildPathExpression\<close>: a path value is spliced in.\<close>

definition appendFlat :: "Value list \<Rightarrow> Value \<Rightarrow> Value list" where
  "appendFlat values val = (case val of PathValue vs \<Rightarrow> values @ vs | _ \<Rightarrow> values @ [val])"

text \<open>
  \<^verbatim>\<open>buildType\<close> reads a \<^verbatim>\<open>*front.TypeNode\<close>, and the parser stores a type as the expression
  node of kind \<^verbatim>\<open>TypeExpression\<close> around it: \<open>buildTypeExpr\<close> takes the type node out of
  that wrapper. The type of a builtin call is the name after the \<^verbatim>\<open>!\<close>. The loops
  (\<open>buildTupleLoop\<close>, \<open>buildExprLoop\<close>, \<open>buildPathLoop\<close>) append to the slice built so far.
\<close>

fun buildType :: "prims \<Rightarrow> TypeNode option \<Rightarrow> error + Type"
  and buildTypeExpr :: "prims \<Rightarrow> ExpressionNode option \<Rightarrow> error + Type"
  and buildTupleLoop :: "prims \<Rightarrow> Type list \<Rightarrow> ExpressionNode option list \<Rightarrow> error + Type list"
  and buildExpr :: "prims \<Rightarrow> ExpressionNode option \<Rightarrow> error + Value"
  and buildExprLoop :: "prims \<Rightarrow> Value list \<Rightarrow> ExpressionNode option list \<Rightarrow> error + Value list"
  and buildPathLoop :: "prims \<Rightarrow> Value list \<Rightarrow> ExpressionNode option list \<Rightarrow> error + Value list"
where
  "buildType P None = Inl NilDereference"
| "buildType P (Some (UnresolvedType name)) = Inr (buildUnresolvedType P name)"
| "buildType P (Some (PointerType base)) =
     andThen (buildTypeExpr P base) (\<lambda>b. Inr (PointerKind b))"
| "buildType P (Some (TupleType types)) =
     andThen (buildTupleLoop P [] types) (\<lambda>ts. Inr (TupleKind ts))"
| "buildType P (Some (ArrayType base sz)) =
     andThen (buildExpr P sz) (\<lambda>size.
     andThen (buildTypeExpr P base) (\<lambda>b. Inr (ArrayKind b size)))"
| "buildType P (Some (StructureType name fs)) = Inl (Panic ''unimplemented type'')"

| "buildTypeExpr P None = Inl NilDereference"
| "buildTypeExpr P (Some (TypeExpression t)) = buildType P t"
| "buildTypeExpr P (Some e) = Inl (Panic ''unimplemented type'')"

| "buildTupleLoop P types [] = Inr types"
| "buildTupleLoop P types (typ # rest) =
     andThen (buildTypeExpr P typ) (\<lambda>t. buildTupleLoop P (types @ [t]) rest)"

| "buildExpr P None = Inl NilDereference"
| "buildExpr P (Some (ConstantExpression c)) = Inr (buildConst c)"
| "buildExpr P (Some (LambdaExpression proto body)) = Inr NoValue"
| "buildExpr P (Some (BinaryExpression l op r)) =
     andThen (buildExpr P l) (\<lambda>lh.
     andThen (buildExpr P r) (\<lambda>rh. Inr (BinaryExpressionValue lh op rh)))"
| "buildExpr P (Some (Grouping g)) =
     andThen (buildExpr P g) (\<lambda>val. Inr (GroupingValue val))"
| "buildExpr P (Some (BuiltinExpression name ref as)) =
     andThen (buildExprLoop P [] as) (\<lambda>args.
       Inr (BuiltinValue name (buildUnresolvedType P (Value ref)) args))"
| "buildExpr P (Some (UnaryExpression op v)) =
     andThen (buildExpr P v) (\<lambda>val. Inr (UnaryExpressionValue op val))"
| "buildExpr P (Some (AssignStatement l op r)) =
     andThen (buildExpr P l) (\<lambda>lh.
     andThen (buildExpr P r) (\<lambda>rh. Inr (AssignValue lh op rh)))"
| "buildExpr P (Some (CallExpression l ps)) =
     andThen (buildExpr P l) (\<lambda>left.
     andThen (buildExprLoop P [] ps) (\<lambda>params. Inr (CallValue left params)))"
| "buildExpr P (Some (PathExpression es)) =
     andThen (buildPathLoop P [] es) rewritePath"
| "buildExpr P (Some (IndexExpression l v)) =
     andThen (buildExpr P l) (\<lambda>left.
     andThen (buildExpr P v) (\<lambda>sub. Inr (IndexValue left sub)))"
| "buildExpr P (Some (InitializerExpression kind lhand es)) =
     andThen (buildExprLoop P [] es) (\<lambda>vals.
       Inr (InitValue kind (if kind = InitStructure then Some lhand else None) vals))"
| "buildExpr P (Some (TypeExpression t)) = Inl (Panic ''unhandled expr'')"
| "buildExpr P (Some (ListExpression es)) = Inl (Panic ''unhandled expr'')"

| "buildExprLoop P vals [] = Inr vals"
| "buildExprLoop P vals (e # es) =
     andThen (buildExpr P e) (\<lambda>val. buildExprLoop P (vals @ [val]) es)"

| "buildPathLoop P values [] = Inr values"
| "buildPathLoop P values (e # es) =
     andThen (buildExpr P e) (\<lambda>val. buildPathLoop P (appendFlat values val) es)"


text \<open>
  \<^verbatim>\<open>NewLocal(name, typ, owned)\<close>, \<^verbatim>\<open>SetValue(val)\<close>, \<^verbatim>\<open>SetMutable(true)\<close>: the fields of
  \<open>LocalInstr\<close> are the name, the type, the ownership, the mutability and the value.
\<close>

definition buildLetStat ::
  "prims \<Rightarrow> Token \<Rightarrow> bool \<Rightarrow> ExpressionNode option \<Rightarrow> ExpressionNode option \<Rightarrow> error + Instruction"
where
  "buildLetStat P name owned ty v =
     andThen (if v \<noteq> None then andThen (buildExpr P v) (\<lambda>x. Inr (Some x)) else Inr None) (\<lambda>val.
     andThen (if ty \<noteq> None then andThen (buildTypeExpr P ty) (\<lambda>t. Inr (Some t)) else Inr None)
       (\<lambda>typ. Inr (LocalInstr name typ owned True val)))"

definition buildMutStat ::
  "prims \<Rightarrow> Token \<Rightarrow> bool \<Rightarrow> ExpressionNode option \<Rightarrow> ExpressionNode option \<Rightarrow> error + Instruction"
where
  "buildMutStat P name owned ty v =
     andThen (if v \<noteq> None then andThen (buildExpr P v) (\<lambda>x. Inr (Some x)) else Inr None) (\<lambda>val.
     andThen
       (if ty \<noteq> None then andThen (buildTypeExpr P ty) (\<lambda>t. Inr (Some t))
        else if val = None then Inl (Panic ''no expression to infer from'')
        else Inr None)
       (\<lambda>typ. Inr (LocalInstr name typ owned True val)))"

definition buildReturnStat :: "prims \<Rightarrow> ExpressionNode option \<Rightarrow> error + Instruction" where
  "buildReturnStat P v =
     andThen (if v \<noteq> None then andThen (buildExpr P v) (\<lambda>x. Inr (Some x)) else Inr None)
       (\<lambda>val. Inr (ReturnInstr val))"

text \<open>
  The switch of \<^verbatim>\<open>buildBlock\<close> on the kind of the instruction just built: a defer goes to
  the deferred statements, a return to the return slot, anything else to the instructions.
\<close>

fun place :: "Instruction \<Rightarrow> Block \<Rightarrow> Block" where
  "place (DeferInstr stat block) res = PushDefer (stat, block) res"
| "place (ReturnInstr val) res = SetReturn (ReturnInstr val) res"
| "place st res = AddInstr st res"

text \<open>
  \<^verbatim>\<open>buildStat\<close> with the statements that hold blocks (\<^verbatim>\<open>buildWhileLoopStat\<close>, \<^verbatim>\<open>buildLoopStat\<close>,
  \<^verbatim>\<open>buildIfStat\<close>, \<^verbatim>\<open>buildDefer\<close>) in its equations. It never returns \<^verbatim>\<open>nil\<close>, so the
  \<^verbatim>\<open>nil\<close> check in \<^verbatim>\<open>buildBlock\<close> never fires. \<^verbatim>\<open>buildBlock(nil)\<close> reads \<^verbatim>\<open>block.Statements\<close>
  through the nil pointer.
\<close>

fun buildStat :: "prims \<Rightarrow> ParseTreeNode option \<Rightarrow> error + Instruction"
  and buildBlock :: "prims \<Rightarrow> BlockNode option \<Rightarrow> error + Block"
  and buildBlockLoop :: "prims \<Rightarrow> Block \<Rightarrow> ParseTreeNode option list \<Rightarrow> error + Block"
  and buildElseIfLoop ::
    "prims \<Rightarrow> (Value \<times> Block) list \<Rightarrow> (ExpressionNode option \<times> BlockNode option) list
       \<Rightarrow> error + (Value \<times> Block) list"
where
  "buildStat P None = Inl NilDereference"
| "buildStat P (Some (BlockStatement b)) =
     andThen (buildBlock P b) (\<lambda>body. Inr (BlockInstr body))"
| "buildStat P (Some (LetStatement name owned ty v)) = buildLetStat P name owned ty v"
| "buildStat P (Some (MutableStatement name owned ty v)) = buildMutStat P name owned ty v"
| "buildStat P (Some (ReturnStatement v)) = buildReturnStat P v"
| "buildStat P (Some BreakStatement) = Inr BreakInstr"
| "buildStat P (Some NextStatement) = Inr NextInstr"
| "buildStat P (Some (LoopStatement b)) =
     andThen (buildBlock P b) (\<lambda>body. Inr (LoopInstr body))"
| "buildStat P (Some (WhileLoopStatement c po b)) =
     andThen (buildExpr P c) (\<lambda>cond.
     andThen (if po \<noteq> None then andThen (buildExpr P po) (\<lambda>x. Inr (Some x)) else Inr None)
       (\<lambda>post.
     andThen (buildBlock P b) (\<lambda>body. Inr (WhileLoopInstr cond post body))))"
| "buildStat P (Some (IfStatement c b elifs el)) =
     andThen (buildExpr P c) (\<lambda>cond.
     andThen (buildBlock P b) (\<lambda>t.
     andThen (buildElseIfLoop P [] elifs) (\<lambda>elses.
     andThen (if el \<noteq> None then andThen (buildBlock P el) (\<lambda>x. Inr (Some x)) else Inr None)
       (\<lambda>f. Inr (IfStatementInstr cond t elses f)))))"
| "buildStat P (Some (DeferStatement b s)) =
     andThen (if s \<noteq> None then andThen (buildStat P s) (\<lambda>x. Inr (Some x)) else Inr None)
       (\<lambda>stat.
     andThen (if b \<noteq> None then andThen (buildBlock P b) (\<lambda>x. Inr (Some x)) else Inr None)
       (\<lambda>block. Inr (DeferInstr stat block)))"
| "buildStat P (Some (ExpressionStatement e)) =
     andThen (buildExpr P e) (\<lambda>val. Inr (ExpressionInstr val))"
| "buildStat P (Some (JumpStatement location)) = Inr (JumpInstr location)"
| "buildStat P (Some (LabelStatement labelName)) = Inr (LabelInstr labelName)"
| "buildStat P (Some stat) = Inl (Panic ''unimplemented stat!'')"

| "buildBlock P None = Inl NilDereference"
| "buildBlock P (Some (BlockNode statements)) = buildBlockLoop P NewBlock statements"

| "buildBlockLoop P res [] = Inr res"
| "buildBlockLoop P res (stat # stats) =
     andThen (buildStat P stat) (\<lambda>st. buildBlockLoop P (place st res) stats)"

| "buildElseIfLoop P elses [] = Inr elses"
| "buildElseIfLoop P elses ((c, b) # elifs) =
     andThen (buildExpr P c) (\<lambda>cond.
     andThen (buildBlock P b) (\<lambda>block. buildElseIfLoop P (elses @ [(cond, block)]) elifs))"

text \<open>The loop of \<^verbatim>\<open>buildFunc\<close> over the arguments, then \<^verbatim>\<open>buildFunc\<close>.\<close>

fun buildParams :: "prims \<Rightarrow> TypeDict \<Rightarrow> NamedType list \<Rightarrow> error + TypeDict" where
  "buildParams P params [] = Inr params"
| "buildParams P params (NamedType mutable name owned ty # rest) =
     andThen (buildTypeExpr P ty) (\<lambda>t. buildParams P (Set name owned t params) rest)"

fun Mutable :: "NamedType \<Rightarrow> bool" where
  "Mutable (NamedType mutable name owned ty) = mutable"

fun buildFunc :: "prims \<Rightarrow> FunctionDeclaration \<Rightarrow> error + Function" where
  "buildFunc P (FunctionDeclaration (FunctionPrototypeDeclaration name arguments returnType) body) =
     andThen (buildParams P newTypeDict arguments) (\<lambda>params.
     andThen (if returnType \<noteq> None then buildTypeExpr P returnType else Inr Void) (\<lambda>ret.
     andThen (buildBlock P body) (\<lambda>b.
       Inr (NewFunction name (map Mutable arguments) params ret b None))))"

subsection \<open>\<^verbatim>\<open>buildTree\<close> and \<^verbatim>\<open>build\<close>\<close>

record builder =
  module :: Module
  errors :: "CompilerError list"

definition error_b :: "CompilerError \<Rightarrow> builder \<Rightarrow> builder" where
  "error_b err b = b\<lparr>errors := errors b @ [err]\<rparr>"

definition newBuilder :: "Module \<Rightarrow> builder" where
  "newBuilder m = \<lparr>module = m, errors = []\<rparr>"

definition declareStructure :: "Token \<Rightarrow> Structure" where
  "declareStructure name = NewStructure name newTypeDict"

text \<open>
  The first loop of \<^verbatim>\<open>buildTree\<close>: every structure and every impl is registered by name;
  \<open>sn\<close> and \<open>ins\<close> are \<^verbatim>\<open>structureNodes\<close> and \<^verbatim>\<open>implNodes\<close>.
\<close>

fun declareLoop ::
  "builder \<Rightarrow> (Token \<times> NamedType list) list \<Rightarrow> (Token \<times> FunctionDeclaration list) list
     \<Rightarrow> ParseTreeNode option list
     \<Rightarrow> error + (builder \<times> (Token \<times> NamedType list) list \<times> (Token \<times> FunctionDeclaration list) list)"
where
  "declareLoop b sn ins [] = Inr (b, sn, ins)"
| "declareLoop b sn ins (None # nodes) = Inl NilDereference"
| "declareLoop b sn ins (Some (StructureDeclStatement name fs) # nodes) =
     declareLoop (b\<lparr>module := RegisterStructure (declareStructure name) (module b)\<rparr>)
       (sn @ [(name, fs)]) ins nodes"
| "declareLoop b sn ins (Some (ImplDeclStatement name fns) # nodes) =
     (case RegisterImpl (NewImpl name) (module b) of
        (dup, m) \<Rightarrow>
          declareLoop
            (if dup then error_b (DuplicateImplementation name) (b\<lparr>module := m\<rparr>) else b\<lparr>module := m\<rparr>)
            sn (ins @ [(name, fns)]) nodes)"
| "declareLoop b sn ins (Some n # nodes) = declareLoop b sn ins nodes"

text \<open>The second loop: the fields of each structure, set on the registered structure.\<close>

fun fieldLoop :: "prims \<Rightarrow> TypeDict \<Rightarrow> NamedType list \<Rightarrow> error + TypeDict" where
  "fieldLoop P fds [] = Inr fds"
| "fieldLoop P fds (NamedType mutable name owned ty # rest) =
     andThen (buildTypeExpr P ty) (\<lambda>typ. fieldLoop P (Set name owned typ fds) rest)"

fun structureLoop :: "prims \<Rightarrow> Module \<Rightarrow> (Token \<times> NamedType list) list \<Rightarrow> error + Module" where
  "structureLoop P m [] = Inr m"
| "structureLoop P m ((name, fs) # rest) =
     (case GetStructure m (Value name) of
        None \<Rightarrow> Inl (Panic ''couldn't find structure'')
      | Some (NewStructure sname fds) \<Rightarrow>
          andThen (fieldLoop P fds fs) (\<lambda>fds2.
            structureLoop P
              (m\<lparr>Structures := put (Value name) (NewStructure sname fds2) (Structures m)\<rparr>)
              rest))"

text \<open>
  The third loop: the methods of each impl node, registered on the impl that the module
  has under the node's name.
\<close>

fun methodLoop :: "prims \<Rightarrow> builder \<Rightarrow> Impl \<Rightarrow> FunctionDeclaration list \<Rightarrow> error + (builder \<times> Impl)"
where
  "methodLoop P b impl [] = Inr (b, impl)"
| "methodLoop P b impl (fn # fns) =
     andThen (buildFunc P fn) (\<lambda>builtFunc.
       (case RegisterMethod builtFunc impl of
          (ok, impl') \<Rightarrow>
            methodLoop P
              (if \<not> ok then error_b (SymbolError (Value (Name builtFunc)) (Span (Name builtFunc))) b
               else b)
              impl' fns))"

fun implLoop :: "prims \<Rightarrow> builder \<Rightarrow> (Token \<times> FunctionDeclaration list) list \<Rightarrow> error + builder"
where
  "implLoop P b [] = Inr b"
| "implLoop P b ((name, fns) # rest) =
     (case GetImpl (module b) (Value name) of
        None \<Rightarrow> Inl (Panic ''couldn't find impl'')
      | Some impl \<Rightarrow>
          andThen (methodLoop P b impl fns) (\<lambda>(b', impl').
            implLoop P (b'\<lparr>module := (module b')\<lparr>Impls := put (Value name) impl' (Impls (module b'))\<rparr>\<rparr>)
              rest))"

text \<open>The last loop: the top-level functions.\<close>

fun functionLoop :: "prims \<Rightarrow> Module \<Rightarrow> ParseTreeNode option list \<Rightarrow> error + Module" where
  "functionLoop P m [] = Inr m"
| "functionLoop P m (None # nodes) = Inl NilDereference"
| "functionLoop P m (Some (FunctionDeclStatement fd) # nodes) =
     andThen (buildFunc P fd) (\<lambda>f. functionLoop P (RegisterFunction f m) nodes)"
| "functionLoop P m (Some n # nodes) = functionLoop P m nodes"

definition buildTree :: "prims \<Rightarrow> builder \<Rightarrow> ParseTreeNode option list \<Rightarrow> error + builder" where
  "buildTree P b nodes =
     andThen (declareLoop b [] [] nodes) (\<lambda>(b1, structureNodes, implNodes).
     andThen (structureLoop P (module b1) structureNodes) (\<lambda>m2.
     andThen (implLoop P (b1\<lparr>module := m2\<rparr>) implNodes) (\<lambda>b3.
     andThen (functionLoop P (module b3) nodes) (\<lambda>m4. Inr (b3\<lparr>module := m4\<rparr>)))))"

fun buildTrees :: "prims \<Rightarrow> builder \<Rightarrow> ParseTreeNode option list list \<Rightarrow> error + builder" where
  "buildTrees P b [] = Inr b"
| "buildTrees P b (tree # trees) = andThen (buildTree P b tree) (\<lambda>b'. buildTrees P b' trees)"

definition build :: "prims \<Rightarrow> ParseTreeNode option list list \<Rightarrow> error + (Module \<times> CompilerError list)"
where
  "build P trees =
     andThen (buildTrees P (newBuilder (NewModule ''main'')) trees)
       (\<lambda>b. Inr (module b, errors b))"

section \<open>Symbol tables\<close>

text \<open>
  Modelled from the spec: the methods of \<^verbatim>\<open>SymbolTable\<close> are not in the source. \<^verbatim>\<open>Lookup\<close>
  walks outward through the \<^verbatim>\<open>Outer\<close> links until the name is found or the chain is
  exhausted; on a chain that runs in a circle it does not return (\<open>None\<close>). Both methods
  read the table through their receiver, which must not be \<^verbatim>\<open>nil\<close>.
\<close>

partial_function (option) LookupChain ::
  "(addr \<Rightarrow> SymbolTable) \<Rightarrow> addr option \<Rightarrow> string \<Rightarrow> Type option option"
where
  "LookupChain h a name =
     (case a of
        None \<Rightarrow> Some None
      | Some x \<Rightarrow>
          (case map_of (Types (h x)) name of
             Some t \<Rightarrow> Some (Some t)
           | None \<Rightarrow> LookupChain h (Outer (h x)) name))"

declare LookupChain.simps [code]

definition Lookup ::
  "(addr \<Rightarrow> SymbolTable) \<Rightarrow> addr option \<Rightarrow> string \<Rightarrow> (error + Type option) option"
where
  "Lookup h stab name =
     (case stab of
        None \<Rightarrow> Some (Inl NilDereference)
      | Some a \<Rightarrow> map_option Inr (LookupChain h (Some a) name))"

definition RegisterType ::
  "(addr \<Rightarrow> SymbolTable) \<Rightarrow> addr option \<Rightarrow> string \<Rightarrow> Type \<Rightarrow> error + (addr \<Rightarrow> SymbolTable)"
where
  "RegisterType h stab name t =
     (case stab of
        None \<Rightarrow> Inl NilDereference
      | Some a \<Rightarrow> Inr (h(a := (h a)\<lparr>Types := put name t (Types (h a))\<rparr>)))"

section \<open>The Scope Resolution Pass (middle/sym\_resolve.go)\<close>

text \<open>
  The pass reads values and instructions by a type switch. A call, an assignment or a path
  used as an instruction is the expression statement that holds it.
\<close>

record symResolvePass =
  module :: Module
  errors :: "CompilerError list"
  curr :: "addr option"

definition new_symResolvePass :: "Module \<Rightarrow> CompilerError list \<Rightarrow> addr option \<Rightarrow> symResolvePass"
where
  "new_symResolvePass m es c = \<lparr>module = m, errors = es, curr = c\<rparr>"

text \<open>\<open>thenRun\<close> is \<open>andThen\<close> for a step that may not return.\<close>

definition thenRun ::
  "(error + 'a) option \<Rightarrow> ('a \<Rightarrow> (error + 'b) option) \<Rightarrow> (error + 'b) option"
where
  "thenRun m f = (case m of None \<Rightarrow> None | Some (Inl e) \<Rightarrow> Some (Inl e) | Some (Inr x) \<Rightarrow> f x)"

definition error_s :: "CompilerError \<Rightarrow> symResolvePass \<Rightarrow> symResolvePass" where
  "error_s err s = s\<lparr>errors := errors s @ [err]\<rparr>"

definition push_s :: "addr option \<Rightarrow> symResolvePass \<Rightarrow> symResolvePass" where
  "push_s stab s = s\<lparr>curr := stab\<rparr>"

definition pop_s :: "symResolvePass \<Rightarrow> symResolvePass" where
  "pop_s s =
     (case curr s of None \<Rightarrow> s | Some a \<Rightarrow> s\<lparr>curr := Outer (Scopes (module s) a)\<rparr>)"

definition resolveIden :: "symResolvePass \<Rightarrow> Token \<Rightarrow> (error + symResolvePass) option" where
  "resolveIden s name =
     thenRun (Lookup (Scopes (module s)) (curr s) (Value name)) (\<lambda>found.
       if found = None then Some (Inr (error_s (UnresolvedSymbol (Value name) (Span name)) s))
       else Some (Inr s))"

fun resolveValue :: "symResolvePass \<Rightarrow> Value \<Rightarrow> (error + symResolvePass) option" where
  "resolveValue s (IntegerValueValue v) = Some (Inr s)"
| "resolveValue s (StringValueValue v) = Some (Inr s)"
| "resolveValue s (FloatingValueValue v) = Some (Inr s)"
| "resolveValue s (BinaryExpressionValue lh op rh) =
     thenRun (resolveValue s lh) (\<lambda>s1. resolveValue s1 rh)"
| "resolveValue s (IdentifierValue name) = resolveIden s name"
| "resolveValue s e = Some (Inl (Panic ''unhandled val''))"

definition resolveOpt :: "symResolvePass \<Rightarrow> Value option \<Rightarrow> (error + symResolvePass) option" where
  "resolveOpt s val = (case val of None \<Rightarrow> Some (Inr s) | Some v \<Rightarrow> resolveValue s v)"

definition resolveAlloca :: "symResolvePass \<Rightarrow> Value option \<Rightarrow> (error + symResolvePass) option" where
  "resolveAlloca s val = resolveOpt s val"

definition resolveLocal :: "symResolvePass \<Rightarrow> Value option \<Rightarrow> (error + symResolvePass) option" where
  "resolveLocal s val = resolveOpt s val"

definition resolveAssign :: "symResolvePass \<Rightarrow> (error + symResolvePass) option" where
  "resolveAssign s = Some (Inr s)"

definition resolveCall :: "symResolvePass \<Rightarrow> (error + symResolvePass) option" where
  "resolveCall s = Some (Inr s)"

fun resolveInstr :: "symResolvePass \<Rightarrow> Instruction \<Rightarrow> (error + symResolvePass) option"
  and resolveBlock :: "symResolvePass \<Rightarrow> Block \<Rightarrow> (error + symResolvePass) option"
  and resolveInstrs :: "symResolvePass \<Rightarrow> Instruction list \<Rightarrow> (error + symResolvePass) option"
  and resolveElseIfs :: "symResolvePass \<Rightarrow> (Value \<times> Block) list \<Rightarrow> (error + symResolvePass) option"
where
  "resolveInstr s (AllocaInstr name ty val) = resolveAlloca s val"
| "resolveInstr s (LocalInstr name ty owned mutable val) = resolveLocal s val"
| "resolveInstr s (ReturnInstr val) = resolveOpt s val"
| "resolveInstr s (IfStatementInstr cond t elseIf el) =
     thenRun (resolveValue s cond) (\<lambda>s1.
     thenRun (resolveBlock s1 t) (\<lambda>s2.
     thenRun (resolveElseIfs s2 elseIf) (\<lambda>s3.
       (case el of None \<Rightarrow> Some (Inr s3) | Some b \<Rightarrow> resolveBlock s3 b))))"
| "resolveInstr s (WhileLoopInstr cond post body) =
     thenRun (resolveValue s cond) (\<lambda>s1.
     thenRun (if post \<noteq> None then resolveValue s1 cond else Some (Inr s1)) (\<lambda>s2.
       resolveBlock s2 body))"
| "resolveInstr s (LoopInstr body) = resolveBlock s body"
| "resolveInstr s (BlockInstr b) = resolveBlock s b"
| "resolveInstr s (ExpressionInstr (CallValue l ps)) = resolveCall s"
| "resolveInstr s (ExpressionInstr (AssignValue lh op rh)) = resolveAssign s"
| "resolveInstr s instr = Some (Inl (Panic ''unhandled instr''))"

| "resolveBlock s (Block instr ds r stab) =
     thenRun (resolveInstrs (push_s stab s) instr) (\<lambda>s1. Some (Inr (pop_s s1)))"

| "resolveInstrs s [] = Some (Inr s)"
| "resolveInstrs s (i # is) = thenRun (resolveInstr s i) (\<lambda>s1. resolveInstrs s1 is)"

| "resolveElseIfs s [] = Some (Inr s)"
| "resolveElseIfs s ((c, body) # es) = thenRun (resolveBlock s body) (\<lambda>s1. resolveElseIfs s1 es)"

definition resolveFunc :: "symResolvePass \<Rightarrow> Function \<Rightarrow> (error + symResolvePass) option" where
  "resolveFunc s fn =
     thenRun (resolveInstrs (push_s (FnStab fn) s) (Instr (Body fn))) (\<lambda>s1. Some (Inr (pop_s s1)))"

fun resolveFuncs :: "symResolvePass \<Rightarrow> Function list \<Rightarrow> (error + symResolvePass) option" where
  "resolveFuncs s [] = Some (Inr s)"
| "resolveFuncs s (fn # fns) = thenRun (resolveFunc s fn) (\<lambda>s1. resolveFuncs s1 fns)"

definition symResolve :: "Module \<Rightarrow> (error + CompilerError list) option" where
  "symResolve m =
     thenRun
       (resolveFuncs (new_symResolvePass m [] None)
          (concat (map (\<lambda>(name, impl). map snd (Methods impl)) (Impls m))))
       (\<lambda>s1. thenRun (resolveFuncs s1 (map snd (Functions m))) (\<lambda>s2. Some (Inr (errors s2))))"

section \<open>The Type Declaration Pass (middle/decl\_type.go)\<close>

text \<open>
  The pass writes into the module it was given: the type of a local, and the symbol
  tables. A visit returns the instruction or the block as the pass left it.
\<close>

record decl =
  module :: Module
  errors :: "CompilerError list"
  curr :: "addr option"

definition new_decl :: "Module \<Rightarrow> CompilerError list \<Rightarrow> addr option \<Rightarrow> decl" where
  "new_decl m es c = \<lparr>module = m, errors = es, curr = c\<rparr>"

definition error_d :: "CompilerError \<Rightarrow> decl \<Rightarrow> decl" where
  "error_d e d = d\<lparr>errors := errors d @ [e]\<rparr>"

definition push_d :: "addr option \<Rightarrow> decl \<Rightarrow> decl" where
  "push_d stab d = d\<lparr>curr := stab\<rparr>"

definition pop_d :: "decl \<Rightarrow> error + decl" where
  "pop_d d =
     (case curr d of
        None \<Rightarrow> Inl NilDereference
      | Some a \<Rightarrow> Inr (d\<lparr>curr := Outer (Scopes (module d) a)\<rparr>))"

definition regType :: "string \<Rightarrow> Type \<Rightarrow> decl \<Rightarrow> error + decl" where
  "regType name t d =
     andThen (RegisterType (Scopes (module d)) (curr d) name t)
       (\<lambda>h. Inr (d\<lparr>module := (module d)\<lparr>Scopes := h\<rparr>\<rparr>))"

text \<open>
  \<^verbatim>\<open>visitLocal\<close> on the local \<^verbatim>\<open>l\<close> with name \<open>name\<close> and type \<open>ty\<close>: the result is the pass
  and \<^verbatim>\<open>l.Type\<close> afterwards.
\<close>

definition link :: "decl \<Rightarrow> Type \<Rightarrow> Type" where
  "link d t =
     (case t of
        ReferenceKind name \<Rightarrow>
          (case map_of (Structures (module d)) name of
             Some structure \<Rightarrow> StructureKind structure
           | None \<Rightarrow> t)
      | _ \<Rightarrow> t)"

definition visitLocal :: "decl \<Rightarrow> Token \<Rightarrow> Type option \<Rightarrow> error + (decl \<times> Type option)" where
  "visitLocal d name ty =
     (case ty of
        None \<Rightarrow> Inr (error_d (UnimplementedError [''type inference''] []) d, None)
      | Some t \<Rightarrow>
          andThen (regType (Value name) (link d t) d) (\<lambda>d'. Inr (d', Some (link d t))))"

definition visitAlloca :: "decl \<Rightarrow> Token \<Rightarrow> Type option \<Rightarrow> error + decl" where
  "visitAlloca d name ty =
     (case ty of
        None \<Rightarrow> Inr (error_d (UnimplementedError [''type inference''] []) d)
      | Some t \<Rightarrow> regType (Value name) t d)"

fun visitInstr :: "decl \<Rightarrow> Instruction \<Rightarrow> error + (decl \<times> Instruction)"
  and visitBlock :: "decl \<Rightarrow> Block \<Rightarrow> error + (decl \<times> Block)"
  and visitInstrs :: "decl \<Rightarrow> Instruction list \<Rightarrow> error + (decl \<times> Instruction list)"
where
  "visitInstr d (BlockInstr b) =
     andThen (visitBlock d b) (\<lambda>(d', b'). Inr (d', BlockInstr b'))"
| "visitInstr d (LocalInstr name ty owned mutable val) =
     andThen (visitLocal d name ty) (\<lambda>(d', ty'). Inr (d', LocalInstr name ty' owned mutable val))"
| "visitInstr d (AllocaInstr name ty val) =
     andThen (visitAlloca d name ty) (\<lambda>d'. Inr (d', AllocaInstr name ty val))"
| "visitInstr d (ExpressionInstr (PathValue vs)) = Inr (d, ExpressionInstr (PathValue vs))"
| "visitInstr d (ReturnInstr val) = Inr (d, ReturnInstr val)"
| "visitInstr d instr = Inr (error_d (UnimplementedError [''visitInstr''] []) d, instr)"

| "visitBlock d (Block instr ds r stab) =
     andThen (visitInstrs (push_d stab d) instr) (\<lambda>(d1, instr').
     andThen (pop_d d1) (\<lambda>d2. Inr (d2, Block instr' ds r stab)))"

| "visitInstrs d [] = Inr (d, [])"
| "visitInstrs d (i # is) =
     andThen (visitInstr d i) (\<lambda>(d1, i').
     andThen (visitInstrs d1 is) (\<lambda>(d2, is'). Inr (d2, i' # is')))"

text \<open>
  The loop of \<^verbatim>\<open>declType\<close> over \<^verbatim>\<open>mod.FunctionOrder\<close>. A name without a function gives the
  \<^verbatim>\<open>nil\<close> function, whose \<^verbatim>\<open>Stab\<close> cannot be read.
\<close>

fun SetBody :: "Block \<Rightarrow> Function \<Rightarrow> Function" where
  "SetBody b (NewFunction name mt params rt body stab) = NewFunction name mt params rt b stab"

fun SetInstr :: "Instruction list \<Rightarrow> Block \<Rightarrow> Block" where
  "SetInstr is (Block instr ds r stab) = Block is ds r stab"

fun declLoop :: "decl \<Rightarrow> Token list \<Rightarrow> error + decl" where
  "declLoop d [] = Inr d"
| "declLoop d (name # names) =
     (case map_of (Functions (module d)) (Value name) of
        None \<Rightarrow> Inl NilDereference
      | Some fn \<Rightarrow>
          andThen (visitInstrs (push_d (FnStab fn) d) (Instr (Body fn))) (\<lambda>(d1, instr').
          andThen (pop_d d1) (\<lambda>d2.
            declLoop
              (d2\<lparr>module := (module d2)\<lparr>Functions :=
                   put (Value name) (SetBody (SetInstr instr' (Body fn)) fn)
                     (Functions (module d2))\<rparr>\<rparr>)
              names)))"

definition declType :: "Module \<Rightarrow> error + (Module \<times> CompilerError list)" where
  "declType m =
     andThen (declLoop (push_d (Root m) (new_decl m [] None)) (FunctionOrder m))
       (\<lambda>d. Inr (module d, errors d))"

section \<open>Notions used to state the properties\<close>

text \<open>A table of primitive types that knows no name.\<close>

definition no_prims :: prims where
  "no_prims = (\<lambda>name. None)"

text \<open>The kind of a lowered instruction, and of the statement it was lowered from.\<close>

fun isReturnInstr :: "Instruction \<Rightarrow> bool" where
  "isReturnInstr (ReturnInstr val) = True"
| "isReturnInstr st = False"

fun isDeferInstr :: "Instruction \<Rightarrow> bool" where
  "isDeferInstr (DeferInstr stat block) = True"
| "isDeferInstr st = False"

fun isReturnStatement :: "ParseTreeNode option \<Rightarrow> bool" where
  "isReturnStatement (Some (ReturnStatement v)) = True"
| "isReturnStatement stat = False"

fun isDeferStatement :: "ParseTreeNode option \<Rightarrow> bool" where
  "isDeferStatement (Some (DeferStatement b s)) = True"
| "isDeferStatement stat = False"

text \<open>What a lowered instruction adds to the deferred statements of its block.\<close>

fun deferred :: "Instruction \<Rightarrow> (Instruction option \<times> Block option) list" where
  "deferred (DeferInstr stat block) = [(stat, block)]"
| "deferred st = []"

text \<open>The last return among lowered instructions, if there is one.\<close>

definition lastReturn :: "Instruction list \<Rightarrow> Instruction option" where
  "lastReturn sts =
     (if filter isReturnInstr sts = [] then None else Some (last (filter isReturnInstr sts)))"








definition leaf :: "Token \<Rightarrow> ExpressionNode" where
  "leaf tok =
     ConstantExpression
       (case Kind tok of
          Number \<Rightarrow> IntegerConstant (SetString (Value tok))
        | Identifier \<Rightarrow> VariableReference tok
        | Char_t \<Rightarrow> CharacterConstant (Value tok)
        | _ \<Rightarrow> StringConstant (Value tok))"




text \<open>
  The leaves and operators of a binary tree from left to right, and the same for an atom
  followed by pairs of operator and atom.
\<close>

fun inorder :: "ExpressionNode \<Rightarrow> (ExpressionNode + string) list" where
  "inorder (BinaryExpression (Some l) op (Some r)) = inorder l @ [Inr op] @ inorder r"
| "inorder e = [Inl e]"


text \<open>
  The precedence of the operator at the root of a tree, if it is a binary expression. A
  tree \<open>climbs\<close> when, at every binary expression, the left operand does not bind looser
  than the operator (equal precedence groups to the left) and the right operand binds
  strictly tighter.
\<close>

fun rootPrec :: "ExpressionNode \<Rightarrow> int option" where
  "rootPrec (BinaryExpression l op r) = Some (getOpPrec op)"
| "rootPrec e = None"

definition atLeast :: "int \<Rightarrow> int option \<Rightarrow> bool" where
  "atLeast q r = (case r of None \<Rightarrow> True | Some x \<Rightarrow> q \<le> x)"

fun climbs :: "ExpressionNode \<Rightarrow> bool" where
  "climbs (BinaryExpression (Some l) op (Some r)) =
     (climbs l \<and> climbs r \<and> atLeast (getOpPrec op) (rootPrec l) \<and> atLeast (getOpPrec op + 1) (rootPrec r))"
| "climbs (BinaryExpression l op r) = False"
| "climbs e = True"

section \<open>Properties of the lexer\<close>

text \<open>
  Claim C4 (as the code has it). The fractional run of \<^verbatim>\<open>lexNumber\<close> is accepted with the
  digit string \<^verbatim>\<open>"012345689"\<close>, which has no \<^verbatim>\<open>7\<close>, while the integer run uses all ten
  digits. On \<^verbatim>\<open>1.75\<close> the Number token therefore ends after the dot, and the digits
  \<^verbatim>\<open>75\<close> come out as a second Number token: two tokens, not the single token \<^verbatim>\<open>1.75\<close>.
\<close>

theorem lexNumber_splits_at_seven:
  "tokenizeInput U ''1.75'' = Some (Inr [NewToken ''1.'' Number 0 2, NewToken ''75'' Number 2 4])"
  by code_simp

text \<open>
  Claim C3 fails on the one-byte input \<^verbatim>\<open>0xFF\<close>, which is not UTF-8: \<^verbatim>\<open>consume\<close> panics, and
  the panic leaves \<^verbatim>\<open>tokenizeInput\<close> without a token stream.
\<close>

theorem tokenizeInput_invalid_utf8_panics:
  "tokenizeInput ascii_tables [CHR 0xFF] = Some (Inl (Panic ''oh''))"
  by code_simp

section \<open>Properties of the IR builder\<close>

lemma place_Instr:
  "Instr (place st res) = Instr res @ (if isReturnInstr st \<or> isDeferInstr st then [] else [st])"
  by (cases res; cases st) simp_all

lemma place_DeferStack: "DeferStack (place st res) = DeferStack res @ deferred st"
  by (cases res; cases st) simp_all

lemma place_Return:
  "Return (place st res) = (if isReturnInstr st then Some st else Return res)"
  by (cases res; cases st) simp_all

text \<open>Only a return statement lowers to a return, and only a defer statement to a defer.\<close>

lemma buildStat_kind:
  assumes "buildStat P stat = Inr st"
  shows "isReturnInstr st = isReturnStatement stat" and "isDeferInstr st = isDeferStatement stat"
proof -
  show "isReturnInstr st = isReturnStatement stat"
  proof (cases stat)
    case None
    with assms show ?thesis by simp
  next
    case (Some n)
    with assms show ?thesis
      by (cases n) (auto simp: andThen_def buildLetStat_def buildMutStat_def buildReturnStat_def
                          split: sum.splits if_splits)
  qed
  show "isDeferInstr st = isDeferStatement stat"
  proof (cases stat)
    case None
    with assms show ?thesis by simp
  next
    case (Some n)
    with assms show ?thesis
      by (cases n) (auto simp: andThen_def buildLetStat_def buildMutStat_def buildReturnStat_def
                          split: sum.splits if_splits)
  qed
qed

text \<open>The loop of \<^verbatim>\<open>buildBlock\<close>, from any block built so far.\<close>

lemma buildBlockLoop_places:
  assumes "buildBlockLoop P res stats = Inr blk"
  shows "\<exists>sts. list_all2 (\<lambda>stat st. buildStat P stat = Inr st) stats sts
          \<and> Instr blk = Instr res @ filter (\<lambda>st. \<not> isReturnInstr st \<and> \<not> isDeferInstr st) sts
          \<and> DeferStack blk = DeferStack res @ concat (map deferred sts)
          \<and> Return blk = (if filter isReturnInstr sts = [] then Return res else lastReturn sts)"
  using assms
proof (induction stats arbitrary: res)
  case Nil
  then show ?case by (simp add: lastReturn_def)
next
  case (Cons stat stats)
  from Cons.prems obtain st where st: "buildStat P stat = Inr st"
    and rest: "buildBlockLoop P (place st res) stats = Inr blk"
    by (auto simp: andThen_def split: sum.splits)
  from Cons.IH [OF rest] obtain sts where
    a: "list_all2 (\<lambda>stat st. buildStat P stat = Inr st) stats sts"
    and i: "Instr blk =
              Instr (place st res) @ filter (\<lambda>st. \<not> isReturnInstr st \<and> \<not> isDeferInstr st) sts"
    and d: "DeferStack blk = DeferStack (place st res) @ concat (map deferred sts)"
    and r: "Return blk =
              (if filter isReturnInstr sts = [] then Return (place st res) else lastReturn sts)"
    by blast
  have "list_all2 (\<lambda>stat st. buildStat P stat = Inr st) (stat # stats) (st # sts)"
    using st a by simp
  moreover have "Instr blk =
      Instr res @ filter (\<lambda>st. \<not> isReturnInstr st \<and> \<not> isDeferInstr st) (st # sts)"
    using i by (simp add: place_Instr)
  moreover have "DeferStack blk = DeferStack res @ concat (map deferred (st # sts))"
    using d by (simp add: place_DeferStack)
  moreover have "Return blk =
      (if filter isReturnInstr (st # sts) = [] then Return res else lastReturn (st # sts))"
    using r by (simp add: place_Return lastReturn_def)
  ultimately show ?case by blast
qed

text \<open>
  Claim C9. Let \<^verbatim>\<open>buildBlock\<close> lower a block, and let \<open>sts\<close> be the instructions that its
  statements lower to, in order. The return statements and the defer statements are
  exactly those that lower to a return and to a defer. The ordered instructions of the
  block are \<open>sts\<close> without the returns and the defers; the deferred list holds the defers,
  in order; the return slot holds the last return of \<open>sts\<close>, wherever in the block it
  stands, and nothing when there is none. So no return is among the ordered instructions,
  and of several returns the last one is kept.
\<close>

theorem buildBlock_hoists_return_and_defer:
  assumes "buildBlock P (Some (BlockNode stats)) = Inr blk"
  shows "\<exists>sts. list_all2 (\<lambda>stat st. buildStat P stat = Inr st
                   \<and> isReturnInstr st = isReturnStatement stat
                   \<and> isDeferInstr st = isDeferStatement stat) stats sts
          \<and> Instr blk = filter (\<lambda>st. \<not> isReturnInstr st \<and> \<not> isDeferInstr st) sts
          \<and> DeferStack blk = concat (map deferred sts)
          \<and> Return blk = lastReturn sts
          \<and> (\<forall>st \<in> set (Instr blk). \<not> isReturnInstr st \<and> \<not> isDeferInstr st)"
proof -
  from assms have "buildBlockLoop P NewBlock stats = Inr blk" by simp
  from buildBlockLoop_places [OF this] obtain sts where
    a: "list_all2 (\<lambda>stat st. buildStat P stat = Inr st) stats sts"
    and i: "Instr blk = filter (\<lambda>st. \<not> isReturnInstr st \<and> \<not> isDeferInstr st) sts"
    and d: "DeferStack blk = concat (map deferred sts)"
    and r: "Return blk = (if filter isReturnInstr sts = [] then None else lastReturn sts)"
    by (auto simp: NewBlock_def)
  have "list_all2 (\<lambda>stat st. buildStat P stat = Inr st
                   \<and> isReturnInstr st = isReturnStatement stat
                   \<and> isDeferInstr st = isDeferStatement stat) stats sts"
    using a by (rule list_all2_mono) (simp add: buildStat_kind)
  moreover have "Return blk = lastReturn sts"
    using r by (simp add: lastReturn_def)
  moreover have "\<forall>st \<in> set (Instr blk). \<not> isReturnInstr st \<and> \<not> isDeferInstr st"
    using i by simp
  ultimately show ?thesis using i d by blast
qed

text \<open>
  The block \<^verbatim>\<open>{ return 1; break; defer next; return 2; }\<close>: the \<^verbatim>\<open>break\<close> is the only
  ordered instruction, the \<^verbatim>\<open>next\<close> is deferred, and of the two returns, one of them first
  in the block, the slot holds the second.
\<close>

theorem buildBlock_hoists_return_and_defer_witness:
  "buildBlock no_prims
     (Some (BlockNode
        [Some (ReturnStatement (Some (ConstantExpression (IntegerConstant (Some 1))))),
         Some BreakStatement,
         Some (DeferStatement None (Some NextStatement)),
         Some (ReturnStatement (Some (ConstantExpression (IntegerConstant (Some 2)))))]))
   = Inr (Block [BreakInstr] [(Some NextInstr, None)]
            (Some (ReturnInstr (Some (IntegerValueValue (Some 2))))) None)
   \<and> (\<exists>sts. Instr (Block [BreakInstr] [(Some NextInstr, None)]
                  (Some (ReturnInstr (Some (IntegerValueValue (Some 2))))) None)
               = filter (\<lambda>st. \<not> isReturnInstr st \<and> \<not> isDeferInstr st) sts
            \<and> Some (ReturnInstr (Some (IntegerValueValue (Some 2)))) = lastReturn sts)"
proof -
  have h: "buildBlock no_prims
     (Some (BlockNode
        [Some (ReturnStatement (Some (ConstantExpression (IntegerConstant (Some 1))))),
         Some BreakStatement,
         Some (DeferStatement None (Some NextStatement)),
         Some (ReturnStatement (Some (ConstantExpression (IntegerConstant (Some 2)))))]))
   = Inr (Block [BreakInstr] [(Some NextInstr, None)]
            (Some (ReturnInstr (Some (IntegerValueValue (Some 2))))) None)"
    by (simp add: andThen_def buildReturnStat_def NewBlock_def)
  show ?thesis
    using buildBlock_hoists_return_and_defer [OF h] h by auto
qed

subsection \<open>Duplicate impl declarations\<close>















section \<open>Properties of the passes\<close>

text \<open>
  Claim C5 (as the code has it). For a while loop with a post expression, \<^verbatim>\<open>resolveInstr\<close>
  resolves the condition a second time where the post expression should be resolved: the
  pass does the same whatever the post expression is, so it does the same as on the loop
  whose post expression is its condition. On \<^verbatim>\<open>while 1; y { }\<close> in a scope that knows no
  \<open>y\<close> it returns without a diagnostic, although resolving \<open>y\<close> there reports it.
\<close>

theorem resolveInstr_while_never_resolves_post:
  "resolveInstr s (WhileLoopInstr cond (Some post) body)
     = resolveInstr s (WhileLoopInstr cond (Some cond) body)
   \<and> (\<exists>s'. resolveInstr (new_symResolvePass (NewModule ''main'') [] (Some 0))
          (WhileLoopInstr (IntegerValueValue (Some 1))
             (Some (IdentifierValue (Token ''y'' Identifier [9, 10])))
             (Block [] [] None (Some 0)))
        = Some (Inr s') \<and> symResolvePass.errors s' = [])
   \<and> (\<exists>s'. resolveValue (new_symResolvePass (NewModule ''main'') [] (Some 0))
          (IdentifierValue (Token ''y'' Identifier [9, 10]))
        = Some (Inr s') \<and> symResolvePass.errors s' = [UnresolvedSymbol ''y'' [9, 10]])"
  by (simp add: thenRun_def new_symResolvePass_def push_s_def pop_s_def resolveIden_def
        Lookup_def LookupChain.simps NewModule_def error_s_def)



section \<open>Properties of the parser and of the pipeline\<close>

lemmas cursor_defs = hasNext_def next_p_def peek_p_def consume_p_def expect_def expectKind_def
  error_p_def errorIf_def Matches_def BadToken_def new_parser_def ret_def seq_def

lemmas expr_defs = parseExpression_def parseLeft_def parsePrimaryExpr_def parseOperand_def
  parseUnaryExpr_def parseDotList_def getOpPrec_def opPrec_def unaryOperators_def builtins_def
  assignOperators_def SetString_def digit_def





text \<open>
  Claim C10. \<^verbatim>\<open>buildStat\<close> on a mut statement without type and without value panics, and
  nothing is reported. The parser makes such a node: for \<^verbatim>\<open>mut x;\<close>, \<^verbatim>\<open>parseMut\<close> records its
  diagnostics and returns the node with both fields \<^verbatim>\<open>nil\<close>. So the pipeline, given
  \<^verbatim>\<open>fn f() { mut x; }\<close>, parses a function declaration and panics in \<^verbatim>\<open>build\<close>. The fuel is
  any from 1 and from 3 on.
\<close>

theorem buildMutStat_panics_on_parsed_node:
  "buildStat P (Some (MutableStatement name owned None None))
     = Inl (Panic ''no expression to infer from'')
   \<and> tokenizeInput U ''mut x;''
     = Some (Inr [Token ''mut'' Identifier [0, 3], Token ''x'' Identifier [4, 5],
                  Token '';'' Symbol [5, 6]])
   \<and> parseMut (level F (Suc n))
        (new_parser [Token ''mut'' Identifier [0, 3], Token ''x'' Identifier [4, 5],
                     Token '';'' Symbol [5, 6]] 0 [])
     = Some (Inr (Some (MutableStatement (Token ''x'' Identifier [4, 5]) True None None),
          new_parser [Token ''mut'' Identifier [0, 3], Token ''x'' Identifier [4, 5],
                      Token '';'' Symbol [5, 6]] 2
            [UnimplementedError [''parseTypeExpression'', ''type''] [2, 2],
             ParseError ''type after assignment'' [0, 2],
             ParseError ''value or type in mut statement'' [0, 2]]))
   \<and> tokenizeInput U ''fn f() { mut x; }''
     = Some (Inr [Token ''fn'' Identifier [0, 2], Token ''f'' Identifier [3, 4],
                  Token ''('' Symbol [4, 5], Token '')'' Symbol [5, 6],
                  Token ''{'' Symbol [7, 8], Token ''mut'' Identifier [9, 12],
                  Token ''x'' Identifier [13, 14], Token '';'' Symbol [14, 15],
                  Token ''}'' Symbol [16, 17]])
   \<and> ParseTokenStream F (Suc (Suc (Suc n)))
        [Token ''fn'' Identifier [0, 2], Token ''f'' Identifier [3, 4],
         Token ''('' Symbol [4, 5], Token '')'' Symbol [5, 6],
         Token ''{'' Symbol [7, 8], Token ''mut'' Identifier [9, 12],
         Token ''x'' Identifier [13, 14], Token '';'' Symbol [14, 15],
         Token ''}'' Symbol [16, 17]]
     = Some (Inr ([Some (FunctionDeclStatement
                     (FunctionDeclaration
                        (FunctionPrototypeDeclaration (Token ''f'' Identifier [3, 4]) [] None)
                        (Some (BlockNode
                           [Some (MutableStatement (Token ''x'' Identifier [13, 14]) True
                                    None None)]))))],
                  [UnimplementedError [''parseTypeExpression'', ''type''] [7, 7],
                   ParseError ''type after assignment'' [5, 7],
                   ParseError ''value or type in mut statement'' [5, 7]]))
   \<and> build P
        [[Some (FunctionDeclStatement
                  (FunctionDeclaration
                     (FunctionPrototypeDeclaration (Token ''f'' Identifier [3, 4]) [] None)
                     (Some (BlockNode
                        [Some (MutableStatement (Token ''x'' Identifier [13, 14]) True
                                 None None)]))))]]
     = Inl (Panic ''no expression to infer from'')"
proof (intro conjI)
  show "buildStat P (Some (MutableStatement name owned None None))
     = Inl (Panic ''no expression to infer from'')"
    by (simp add: buildMutStat_def andThen_def)
  show "tokenizeInput U ''mut x;''
     = Some (Inr [Token ''mut'' Identifier [0, 3], Token ''x'' Identifier [4, 5],
                  Token '';'' Symbol [5, 6]])"
    by code_simp
  show "parseMut (level F (Suc n))
        (new_parser [Token ''mut'' Identifier [0, 3], Token ''x'' Identifier [4, 5],
                     Token '';'' Symbol [5, 6]] 0 [])
     = Some (Inr (Some (MutableStatement (Token ''x'' Identifier [4, 5]) True None None),
          new_parser [Token ''mut'' Identifier [0, 3], Token ''x'' Identifier [4, 5],
                      Token '';'' Symbol [5, 6]] 2
            [UnimplementedError [''parseTypeExpression'', ''type''] [2, 2],
             ParseError ''type after assignment'' [0, 2],
             ParseError ''value or type in mut statement'' [0, 2]]))"
    by (simp add: cursor_defs parseMut_def parseTypeExpression_def)
  show "tokenizeInput U ''fn f() { mut x; }''
     = Some (Inr [Token ''fn'' Identifier [0, 2], Token ''f'' Identifier [3, 4],
                  Token ''('' Symbol [4, 5], Token '')'' Symbol [5, 6],
                  Token ''{'' Symbol [7, 8], Token ''mut'' Identifier [9, 12],
                  Token ''x'' Identifier [13, 14], Token '';'' Symbol [14, 15],
                  Token ''}'' Symbol [16, 17]])"
    by code_simp
  show "ParseTokenStream F (Suc (Suc (Suc n)))
        [Token ''fn'' Identifier [0, 2], Token ''f'' Identifier [3, 4],
         Token ''('' Symbol [4, 5], Token '')'' Symbol [5, 6],
         Token ''{'' Symbol [7, 8], Token ''mut'' Identifier [9, 12],
         Token ''x'' Identifier [13, 14], Token '';'' Symbol [14, 15],
         Token ''}'' Symbol [16, 17]]
     = Some (Inr ([Some (FunctionDeclStatement
                     (FunctionDeclaration
                        (FunctionPrototypeDeclaration (Token ''f'' Identifier [3, 4]) [] None)
                        (Some (BlockNode
                           [Some (MutableStatement (Token ''x'' Identifier [13, 14]) True
                                    None None)]))))],
                  [UnimplementedError [''parseTypeExpression'', ''type''] [7, 7],
                   ParseError ''type after assignment'' [5, 7],
                   ParseError ''value or type in mut statement'' [5, 7]]))"
    by (simp add: ParseTokenStream_def parseNode_def parseFunctionDeclaration_def
          parseFunctionPrototypeDeclaration_def parseStatBlock_def parseStatement_def
          parseSemicolonStatement_def parseMut_def parseTypeExpression_def cursor_defs)
  show "build P
        [[Some (FunctionDeclStatement
                  (FunctionDeclaration
                     (FunctionPrototypeDeclaration (Token ''f'' Identifier [3, 4]) [] None)
                     (Some (BlockNode
                        [Some (MutableStatement (Token ''x'' Identifier [13, 14]) True
                                 None None)]))))]]
     = Inl (Panic ''no expression to infer from'')"
    by (simp add: build_def buildTree_def andThen_def newBuilder_def buildMutStat_def
          NewBlock_def newTypeDict_def)
qed

text \<open>
  Claim C6 (as the code has it). The pipeline on \<^verbatim>\<open>fn f() { mut x = 1; return x + y; }\<close>, with
  any fuel from 4 on: the builder puts the return into the return slot of the body, whose
  only ordered instruction is the local \<open>x\<close>; \<^verbatim>\<open>resolveFunc\<close> walks the ordered instructions
  and nothing else, so the pass never sees \<open>x + y\<close> and reports nothing, whatever the scopes
  of the function and of its body hold. The Type Declaration Pass registers no \<open>x\<close> either:
  the local has no type, and \<^verbatim>\<open>visitLocal\<close> reports that and returns.
\<close>

theorem symResolve_misses_hoisted_return:
  "tokenizeInput U ''fn f() { mut x = 1; return x + y; }''
     = Some (Inr [Token ''fn'' Identifier [0, 2], Token ''f'' Identifier [3, 4],
                  Token ''('' Symbol [4, 5], Token '')'' Symbol [5, 6],
                  Token ''{'' Symbol [7, 8], Token ''mut'' Identifier [9, 12],
                  Token ''x'' Identifier [13, 14], Token ''='' Symbol [15, 16],
                  Token ''1'' Number [17, 18], Token '';'' Symbol [18, 19],
                  Token ''return'' Identifier [20, 26], Token ''x'' Identifier [27, 28],
                  Token ''+'' Symbol [29, 30], Token ''y'' Identifier [31, 32],
                  Token '';'' Symbol [32, 33], Token ''}'' Symbol [34, 35]])
   \<and> ParseTokenStream F (Suc (Suc (Suc (Suc n))))
        [Token ''fn'' Identifier [0, 2], Token ''f'' Identifier [3, 4],
         Token ''('' Symbol [4, 5], Token '')'' Symbol [5, 6],
         Token ''{'' Symbol [7, 8], Token ''mut'' Identifier [9, 12],
         Token ''x'' Identifier [13, 14], Token ''='' Symbol [15, 16],
         Token ''1'' Number [17, 18], Token '';'' Symbol [18, 19],
         Token ''return'' Identifier [20, 26], Token ''x'' Identifier [27, 28],
         Token ''+'' Symbol [29, 30], Token ''y'' Identifier [31, 32],
         Token '';'' Symbol [32, 33], Token ''}'' Symbol [34, 35]]
     = Some (Inr ([Some (FunctionDeclStatement
                     (FunctionDeclaration
                        (FunctionPrototypeDeclaration (Token ''f'' Identifier [3, 4]) [] None)
                        (Some (BlockNode
                           [Some (MutableStatement (Token ''x'' Identifier [13, 14]) True None
                                    (Some (ConstantExpression (IntegerConstant (Some 1))))),
                            Some (ReturnStatement
                                    (Some (BinaryExpression
                                       (Some (ConstantExpression
                                          (VariableReference (Token ''x'' Identifier [27, 28]))))
                                       ''+''
                                       (Some (ConstantExpression
                                          (VariableReference
                                             (Token ''y'' Identifier [31, 32])))))))]))))],
                  []))
   \<and> build P
        [[Some (FunctionDeclStatement
                  (FunctionDeclaration
                     (FunctionPrototypeDeclaration (Token ''f'' Identifier [3, 4]) [] None)
                     (Some (BlockNode
                        [Some (MutableStatement (Token ''x'' Identifier [13, 14]) True None
                                 (Some (ConstantExpression (IntegerConstant (Some 1))))),
                         Some (ReturnStatement
                                 (Some (BinaryExpression
                                    (Some (ConstantExpression
                                       (VariableReference (Token ''x'' Identifier [27, 28]))))
                                    ''+''
                                    (Some (ConstantExpression
                                       (VariableReference
                                          (Token ''y'' Identifier [31, 32])))))))]))))]]
     = Inr (RegisterFunction
              (NewFunction (Token ''f'' Identifier [3, 4]) [] [] Void
                 (Block
                    [LocalInstr (Token ''x'' Identifier [13, 14]) None True True
                       (Some (IntegerValueValue (Some 1)))]
                    []
                    (Some (ReturnInstr
                       (Some (BinaryExpressionValue
                          (IdentifierValue (Token ''x'' Identifier [27, 28])) ''+''
                          (IdentifierValue (Token ''y'' Identifier [31, 32]))))))
                    None)
                 None)
              (NewModule ''main''),
            [])
   \<and> symResolve
        (RegisterFunction
           (NewFunction (Token ''f'' Identifier [3, 4]) [] [] Void
              (Block
                 [LocalInstr (Token ''x'' Identifier [13, 14]) None True True
                    (Some (IntegerValueValue (Some 1)))]
                 []
                 (Some (ReturnInstr
                    (Some (BinaryExpressionValue
                       (IdentifierValue (Token ''x'' Identifier [27, 28])) ''+''
                       (IdentifierValue (Token ''y'' Identifier [31, 32]))))))
                 None)
              None)
           (NewModule ''main''))
     = Some (Inr [])
   \<and> resolveFunc s
        (NewFunction (Token ''f'' Identifier [3, 4]) [] [] Void
           (Block
              [LocalInstr (Token ''x'' Identifier [13, 14]) None True True
                 (Some (IntegerValueValue (Some 1)))]
              []
              (Some (ReturnInstr
                 (Some (BinaryExpressionValue
                    (IdentifierValue (Token ''x'' Identifier [27, 28])) ''+''
                    (IdentifierValue (Token ''y'' Identifier [31, 32]))))))
              bodyScope)
           functionScope)
     = Some (Inr (pop_s (push_s functionScope s)))
   \<and> symResolvePass.errors (pop_s (push_s functionScope s)) = symResolvePass.errors s
   \<and> visitLocal d (Token ''x'' Identifier [13, 14]) None
     = Inr (error_d (UnimplementedError [''type inference''] []) d, None)"
proof (intro conjI)
  show "tokenizeInput U ''fn f() { mut x = 1; return x + y; }''
     = Some (Inr [Token ''fn'' Identifier [0, 2], Token ''f'' Identifier [3, 4],
                  Token ''('' Symbol [4, 5], Token '')'' Symbol [5, 6],
                  Token ''{'' Symbol [7, 8], Token ''mut'' Identifier [9, 12],
                  Token ''x'' Identifier [13, 14], Token ''='' Symbol [15, 16],
                  Token ''1'' Number [17, 18], Token '';'' Symbol [18, 19],
                  Token ''return'' Identifier [20, 26], Token ''x'' Identifier [27, 28],
                  Token ''+'' Symbol [29, 30], Token ''y'' Identifier [31, 32],
                  Token '';'' Symbol [32, 33], Token ''}'' Symbol [34, 35]])"
    by code_simp
  show "ParseTokenStream F (Suc (Suc (Suc (Suc n))))
        [Token ''fn'' Identifier [0, 2], Token ''f'' Identifier [3, 4],
         Token ''('' Symbol [4, 5], Token '')'' Symbol [5, 6],
         Token ''{'' Symbol [7, 8], Token ''mut'' Identifier [9, 12],
         Token ''x'' Identifier [13, 14], Token ''='' Symbol [15, 16],
         Token ''1'' Number [17, 18], Token '';'' Symbol [18, 19],
         Token ''return'' Identifier [20, 26], Token ''x'' Identifier [27, 28],
         Token ''+'' Symbol [29, 30], Token ''y'' Identifier [31, 32],
         Token '';'' Symbol [32, 33], Token ''}'' Symbol [34, 35]]
     = Some (Inr ([Some (FunctionDeclStatement
                     (FunctionDeclaration
                        (FunctionPrototypeDeclaration (Token ''f'' Identifier [3, 4]) [] None)
                        (Some (BlockNode
                           [Some (MutableStatement (Token ''x'' Identifier [13, 14]) True None
                                    (Some (ConstantExpression (IntegerConstant (Some 1))))),
                            Some (ReturnStatement
                                    (Some (BinaryExpression
                                       (Some (ConstantExpression
                                          (VariableReference (Token ''x'' Identifier [27, 28]))))
                                       ''+''
                                       (Some (ConstantExpression
                                          (VariableReference
                                             (Token ''y'' Identifier [31, 32])))))))]))))],
                  []))"
    by (simp add: ParseTokenStream_def parseNode_def parseFunctionDeclaration_def
          parseFunctionPrototypeDeclaration_def parseStatBlock_def parseStatement_def
          parseSemicolonStatement_def parseMut_def parseReturn_def parseTypeExpression_def
          cursor_defs expr_defs)
  show "build P
        [[Some (FunctionDeclStatement
                  (FunctionDeclaration
                     (FunctionPrototypeDeclaration (Token ''f'' Identifier [3, 4]) [] None)
                     (Some (BlockNode
                        [Some (MutableStatement (Token ''x'' Identifier [13, 14]) True None
                                 (Some (ConstantExpression (IntegerConstant (Some 1))))),
                         Some (ReturnStatement
                                 (Some (BinaryExpression
                                    (Some (ConstantExpression
                                       (VariableReference (Token ''x'' Identifier [27, 28]))))
                                    ''+''
                                    (Some (ConstantExpression
                                       (VariableReference
                                          (Token ''y'' Identifier [31, 32])))))))]))))]]
     = Inr (RegisterFunction
              (NewFunction (Token ''f'' Identifier [3, 4]) [] [] Void
                 (Block
                    [LocalInstr (Token ''x'' Identifier [13, 14]) None True True
                       (Some (IntegerValueValue (Some 1)))]
                    []
                    (Some (ReturnInstr
                       (Some (BinaryExpressionValue
                          (IdentifierValue (Token ''x'' Identifier [27, 28])) ''+''
                          (IdentifierValue (Token ''y'' Identifier [31, 32]))))))
                    None)
                 None)
              (NewModule ''main''),
            [])"
    by (simp add: build_def buildTree_def andThen_def newBuilder_def buildMutStat_def
          buildReturnStat_def NewBlock_def newTypeDict_def)
  show "symResolve
        (RegisterFunction
           (NewFunction (Token ''f'' Identifier [3, 4]) [] [] Void
              (Block
                 [LocalInstr (Token ''x'' Identifier [13, 14]) None True True
                    (Some (IntegerValueValue (Some 1)))]
                 []
                 (Some (ReturnInstr
                    (Some (BinaryExpressionValue
                       (IdentifierValue (Token ''x'' Identifier [27, 28])) ''+''
                       (IdentifierValue (Token ''y'' Identifier [31, 32]))))))
                 None)
              None)
           (NewModule ''main''))
     = Some (Inr [])"
    by (simp add: symResolve_def RegisterFunction_def NewModule_def resolveFunc_def thenRun_def
          resolveLocal_def resolveOpt_def push_s_def pop_s_def new_symResolvePass_def)
  show "resolveFunc s
        (NewFunction (Token ''f'' Identifier [3, 4]) [] [] Void
           (Block
              [LocalInstr (Token ''x'' Identifier [13, 14]) None True True
                 (Some (IntegerValueValue (Some 1)))]
              []
              (Some (ReturnInstr
                 (Some (BinaryExpressionValue
                    (IdentifierValue (Token ''x'' Identifier [27, 28])) ''+''
                    (IdentifierValue (Token ''y'' Identifier [31, 32]))))))
              bodyScope)
           functionScope)
     = Some (Inr (pop_s (push_s functionScope s)))"
    by (simp add: resolveFunc_def thenRun_def resolveLocal_def resolveOpt_def)
  show "symResolvePass.errors (pop_s (push_s functionScope s)) = symResolvePass.errors s"
    by (simp add: pop_s_def push_s_def split: option.splits)
  show "visitLocal d (Token ''x'' Identifier [13, 14]) None
     = Inr (error_d (UnimplementedError [''type inference''] []) d, None)"
    by (simp add: visitLocal_def)
qed

subsection \<open>Precedence climbing\<close>







lemma leaf_simps [simp]: "rootPrec (leaf a) = None" "climbs (leaf a)" "inorder (leaf a) = [Inl (leaf a)]"
  by (simp_all add: leaf_def)


lemma cursor_end:
  "\<not> hasNext (new_parser ts (length ts) es)"
  by (simp add: hasNext_def new_parser_def)


text \<open>From here on \<open>parsePrec\<close> is unfolded only where asked.\<close>

declare parsePrec.simps [simp del]







end
